theory Spec2Isabelle
  imports Complex_Main "HOL-Library.Sublist"
begin

section \<open>The S3 presigner: a shallow embedding of \<^verbatim>\<open>scripts/s3-presigner.py\<close>\<close>

text \<open>
  The script is one request handler class. Its logic is string parsing of an S3 URL,
  a call of the signing library, and the writing of an HTTP response. Strings are
  \<^typ>\<open>string\<close> (lists of characters, a character being a code point below 256),
  exceptions are values of a datatype and a function that can raise returns a sum
  (\<open>Inl\<close> the exception). What the handler writes to the socket is a list of wire
  events, in the order of the writes; writing to the socket is taken to succeed. Of
  the log that the handler prints on standard output only the two lines are modelled that
  stand inside a \<^verbatim>\<open>try\<close> and print texts of the request, since a line that the
  stream cannot encode raises there; the lines that print numbers and byte literals only,
  and the log written in the \<^verbatim>\<open>finally\<close> clauses after the response, are left out.
\<close>

subsection \<open>Python string operations used by the script\<close>

text \<open>\<^verbatim>\<open>sub in s\<close>: \<open>sub\<close> occurs in \<open>s\<close> as a contiguous substring.\<close>

fun str_contains :: "string \<Rightarrow> string \<Rightarrow> bool" where
  "str_contains sub [] = (sub = [])"
| "str_contains sub (c # cs) = (prefix sub (c # cs) \<or> str_contains sub cs)"

text \<open>
  \<^verbatim>\<open>s.split(sep)[0]\<close> for a non-empty separator: the text before the first
  occurrence of \<open>sep\<close>, the whole of \<open>s\<close> when there is none.
\<close>

fun split_head :: "string \<Rightarrow> string \<Rightarrow> string" where
  "split_head sep [] = []"
| "split_head sep (c # cs) = (if prefix sep (c # cs) then [] else c # split_head sep cs)"

text \<open>\<^verbatim>\<open>s.lstrip('/')\<close> removes every leading slash.\<close>

definition lstrip_slash :: "string \<Rightarrow> string" where
  "lstrip_slash s = dropWhile (\<lambda>c. c = CHR ''/'') s"

text \<open>
  \<^verbatim>\<open>s.split('/', 1)\<close>: at most one split, at the first slash. The result has one
  element when \<open>s\<close> has no slash and two otherwise.
\<close>

definition split_slash_once :: "string \<Rightarrow> string list" where
  "split_slash_once s =
     (if CHR ''/'' \<in> set s
      then [takeWhile (\<lambda>c. c \<noteq> CHR ''/'') s, tl (dropWhile (\<lambda>c. c \<noteq> CHR ''/'') s)]
      else [s])"

text \<open>A name between single quotes, as \<^verbatim>\<open>repr\<close> prints a plain string.\<close>

definition quoted :: "string \<Rightarrow> string" where
  "quoted s = [CHR 0x27] @ s @ [CHR 0x27]"

subsection \<open>Exceptions, JSON values and the libraries\<close>

datatype py_exception =
    ValueError string
  | TypeError string
  | IndexError string
  | KeyError string
  | OverflowError string
  | MemoryError
  | RecursionError string
  | UnicodeDecodeError string
  | UnicodeEncodeError string
  | JSONDecodeError string
  | NoCredentialsError
  | ClientError string
  | Exception string

text \<open>\<^verbatim>\<open>str(e)\<close> of an exception.\<close>

fun exc_str :: "py_exception \<Rightarrow> string" where
  "exc_str (ValueError m) = m"
| "exc_str (TypeError m) = m"
| "exc_str (IndexError m) = m"
| "exc_str (KeyError m) = m"
| "exc_str (OverflowError m) = m"
| "exc_str MemoryError = []"
| "exc_str (RecursionError m) = m"
| "exc_str (UnicodeDecodeError m) = m"
| "exc_str (UnicodeEncodeError m) = m"
| "exc_str (JSONDecodeError m) = m"
| "exc_str NoCredentialsError = ''Unable to locate credentials''"
| "exc_str (ClientError m) = m"
| "exc_str (Exception m) = m"

text \<open>
  A JSON document as \<^verbatim>\<open>json.loads\<close> returns it and \<^verbatim>\<open>json.dumps\<close> takes it. A
  Python \<^verbatim>\<open>dict\<close> is an association list in insertion order, looked up with
  \<^const>\<open>map_of\<close>. A float is a real number here: the handler computes none but the
  elapsed time, which it only reports.
\<close>

datatype json =
    JNull
  | JBool bool
  | JInt int
  | JFloat real
  | JStr string
  | JArr "json list"
  | JObj "(string \<times> json) list"

type_synonym bytes = "char list"

text \<open>
  What the handler calls outside the repository, as parameters of the model:
  \<^item> \<open>ip_address\<close>: \<^verbatim>\<open>ipaddress.ip_address(s)\<close>, which \<^verbatim>\<open>urlparse\<close> calls on a
    bracketed host: \<open>Inl\<close> the text of its \<^verbatim>\<open>ValueError\<close>, \<open>Inr True\<close> for an IPv4
    address and \<open>Inr False\<close> for an IPv6 address;
  \<^item> \<open>nfkc_netloc_error\<close>: the NFKC check that \<^verbatim>\<open>urlparse\<close> makes on a network
    location with a character outside ASCII (\<^verbatim>\<open>_checknetloc\<close>), the text of its
    \<^verbatim>\<open>ValueError\<close> or \<open>None\<close>;
  \<^item> \<open>parse_qs\<close>: \<^verbatim>\<open>urllib.parse.parse_qs\<close>, a dict from parameter names to the lists
    of their values;
  \<^item> \<open>py_int\<close>: \<^verbatim>\<open>int(s)\<close> on a string, \<open>Inl\<close> the text of its \<^verbatim>\<open>ValueError\<close>;
  \<^item> \<open>out_of_memory\<close>: whether \<^verbatim>\<open>rfile.read(n)\<close> fails to allocate its buffer of
    \<open>n\<close> bytes and raises \<^verbatim>\<open>MemoryError\<close>;
  \<^item> \<open>utf8_valid\<close>, \<open>utf8_text\<close>, \<open>utf8_error\<close>: \<^verbatim>\<open>bytes.decode('utf-8')\<close>. The
    strict decoding raises \<^verbatim>\<open>UnicodeDecodeError\<close> (with the text \<open>utf8_error\<close>) on
    invalid bytes; \<open>utf8_text\<close> is the decoding with \<^verbatim>\<open>errors='ignore'\<close>, which is
    the strict decoding wherever that one succeeds;
  \<^item> \<open>json_loads\<close>: \<^verbatim>\<open>json.loads\<close> on a string, \<open>Inl\<close> the exception it raises:
    \<^verbatim>\<open>JSONDecodeError\<close> on a syntax error, but also \<^verbatim>\<open>RecursionError\<close> on a deep
    nesting and \<^verbatim>\<open>ValueError\<close> on an integer of too many digits;
  \<^item> \<open>print_error\<close>: the exception that \<^verbatim>\<open>print\<close> raises for a line that holds the
    texts of these values (\<^verbatim>\<open>UnicodeEncodeError\<close> when the encoding of standard output
    lacks one of their characters), \<open>None\<close> when the line is printed;
  \<^item> \<open>presign\<close>: \<^verbatim>\<open>boto3.client('s3')\<close> followed by
    \<^verbatim>\<open>generate_presigned_url('get_object', Params={'Bucket': bucket, 'Key': key}, ExpiresIn=expires_in)\<close>,
    the signing delegate of the specification;
  \<^item> \<open>nonstring_url_error\<close>: the text of the exception that \<^verbatim>\<open>urlparse\<close>, or the
    substring test on its result, raises for a URL that is not a string;
  \<^item> \<open>elapsed_ms\<close>: the value of
    \<^verbatim>\<open>round((time.time() - start_time) * 1000, 2)\<close> when the response is built.
\<close>

record library =
  ip_address :: "string \<Rightarrow> string + bool"
  nfkc_netloc_error :: "string \<Rightarrow> string option"
  parse_qs :: "string \<Rightarrow> (string \<times> string list) list"
  py_int :: "string \<Rightarrow> string + int"
  out_of_memory :: "int \<Rightarrow> bool"
  utf8_valid :: "bytes \<Rightarrow> bool"
  utf8_text :: "bytes \<Rightarrow> string"
  utf8_error :: "bytes \<Rightarrow> string"
  json_loads :: "string \<Rightarrow> py_exception + json"
  print_error :: "json list \<Rightarrow> py_exception option"
  presign :: "string \<Rightarrow> string \<Rightarrow> json \<Rightarrow> py_exception + string"
  nonstring_url_error :: "json \<Rightarrow> string"
  elapsed_ms :: real

text \<open>\<^verbatim>\<open>raw.decode('utf-8')\<close>.\<close>

definition utf8_decode :: "library \<Rightarrow> bytes \<Rightarrow> py_exception + string" where
  "utf8_decode lib raw =
     (if utf8_valid lib raw then Inr (utf8_text lib raw)
      else Inl (UnicodeDecodeError (utf8_error lib raw)))"

subsection \<open>The standard library's \<^verbatim>\<open>urlparse\<close>\<close>

text \<open>
  \<^verbatim>\<open>urllib.parse.urlparse\<close> is not part of the repository; the handler reads the
  \<open>netloc\<close>, \<open>path\<close> and \<open>query\<close> of its result. The model follows CPython 3.11
  (\<^verbatim>\<open>urlsplit\<close>, \<^verbatim>\<open>_splitnetloc\<close>, \<^verbatim>\<open>_check_bracketed_host\<close>, \<^verbatim>\<open>_checknetloc\<close>,
  \<^verbatim>\<open>urlparse\<close>, \<^verbatim>\<open>_splitparams\<close>): leading control characters and spaces are
  stripped, tab, CR and LF are removed, a scheme is split off at the first colon, the
  network location runs from \<open>//\<close> to the first of \<open>/ ? #\<close> and is checked, then the
  fragment, the query and (for the schemes that take them) the parameters of the last
  path segment are split off.
\<close>

record parse_result =
  scheme :: string
  netloc :: string
  path :: string
  params :: string
  query :: string
  fragment :: string

definition ascii_letters :: string where
  "ascii_letters = ''abcdefghijklmnopqrstuvwxyzABCDEFGHIJKLMNOPQRSTUVWXYZ''"

definition scheme_chars :: string where
  "scheme_chars = ascii_letters @ ''0123456789'' @ ''+-.''"

definition ascii_lower :: "char \<Rightarrow> char" where
  "ascii_lower c =
     (case map_of (zip ''ABCDEFGHIJKLMNOPQRSTUVWXYZ'' ''abcdefghijklmnopqrstuvwxyz'') c of
        Some d \<Rightarrow> d
      | None \<Rightarrow> c)"

definition uses_params :: "string list" where
  "uses_params = ['''', ''ftp'', ''hdl'', ''prospero'', ''http'', ''imap'', ''https'',
     ''shttp'', ''rtsp'', ''rtsps'', ''rtspu'', ''sip'', ''sips'', ''mms'', ''sftp'', ''tel'']"

text \<open>The characters \<^verbatim>\<open>urlsplit\<close> strips from the front: C0 controls and space.\<close>

definition c0_control_or_space :: "char \<Rightarrow> bool" where
  "c0_control_or_space c = ((of_char c :: nat) \<le> 32)"

text \<open>The characters \<^verbatim>\<open>urlsplit\<close> removes wherever they stand: tab, LF, CR.\<close>

definition unsafe_url_byte :: "char \<Rightarrow> bool" where
  "unsafe_url_byte c = (c = CHR 0x09 \<or> c = CHR 0x0A \<or> c = CHR 0x0D)"

text \<open>\<^verbatim>\<open>c.isascii()\<close>.\<close>

definition ascii_byte :: "char \<Rightarrow> bool" where
  "ascii_byte c = ((of_char c :: nat) < 128)"

definition split_scheme :: "string \<Rightarrow> string \<times> string" where
  "split_scheme url =
     (let pre = takeWhile (\<lambda>c. c \<noteq> CHR '':'') url;
          rest = dropWhile (\<lambda>c. c \<noteq> CHR '':'') url
      in if rest \<noteq> [] \<and> pre \<noteq> [] \<and> hd pre \<in> set ascii_letters
            \<and> list_all (\<lambda>c. c \<in> set scheme_chars) pre
         then (map ascii_lower pre, tl rest)
         else ([], url))"

definition netloc_delim :: "char \<Rightarrow> bool" where
  "netloc_delim c = (c = CHR ''/'' \<or> c = CHR ''?'' \<or> c = CHR ''#'')"

definition splitnetloc :: "string \<Rightarrow> string \<times> string" where
  "splitnetloc url =
     (if take 2 url = ''//''
      then (takeWhile (\<lambda>c. \<not> netloc_delim c) (drop 2 url),
            dropWhile (\<lambda>c. \<not> netloc_delim c) (drop 2 url))
      else ([], url))"

text \<open>
  \<^verbatim>\<open>_check_bracketed_host\<close>: a host that begins with \<open>v\<close> must match
  \<^verbatim>\<open>v[a-fA-F0-9]+\..+\<close> (an IPvFuture address); any other must be an IPv6 address.
  The result is the text of the \<^verbatim>\<open>ValueError\<close>, or \<open>None\<close>.
\<close>

definition hex_digit :: "char \<Rightarrow> bool" where
  "hex_digit c = (c \<in> set ''0123456789abcdefABCDEF'')"

definition ipvfuture :: "string \<Rightarrow> bool" where
  "ipvfuture hostname =
     (let digits = takeWhile hex_digit (tl hostname);
          rest = dropWhile hex_digit (tl hostname)
      in digits \<noteq> [] \<and> rest \<noteq> [] \<and> hd rest = CHR ''.'' \<and> tl rest \<noteq> [])"

definition check_bracketed_host :: "library \<Rightarrow> string \<Rightarrow> string option" where
  "check_bracketed_host lib hostname =
     (if hostname \<noteq> [] \<and> hd hostname = CHR ''v''
      then (if ipvfuture hostname then None else Some ''IPvFuture address is invalid'')
      else (case ip_address lib hostname of
              Inl m \<Rightarrow> Some m
            | Inr True \<Rightarrow> Some ''An IPv4 address cannot be in brackets''
            | Inr False \<Rightarrow> None))"

text \<open>
  The checks of \<^verbatim>\<open>urlsplit\<close> on the network location: the brackets are balanced, and
  the text between the first \<open>[\<close> and the next \<open>]\<close> is a bracketed host
  (\<^verbatim>\<open>netloc.partition('[')[2].partition(']')[0]\<close>); then the NFKC check, which is
  made on a non-empty network location that is not ASCII.
\<close>

definition check_netloc :: "library \<Rightarrow> string \<Rightarrow> string option" where
  "check_netloc lib nl =
     (if (CHR ''['' \<in> set nl \<and> CHR '']'' \<notin> set nl) \<or> (CHR '']'' \<in> set nl \<and> CHR ''['' \<notin> set nl)
      then Some ''Invalid IPv6 URL''
      else
        (case (if CHR ''['' \<in> set nl \<and> CHR '']'' \<in> set nl
               then check_bracketed_host lib
                      (takeWhile (\<lambda>c. c \<noteq> CHR '']'') (tl (dropWhile (\<lambda>c. c \<noteq> CHR ''['') nl)))
               else None) of
           Some m \<Rightarrow> Some m
         | None \<Rightarrow>
             if nl = [] \<or> list_all ascii_byte nl then None else nfkc_netloc_error lib nl))"

text \<open>\<^verbatim>\<open>a, b = s.split(c, 1)\<close> when \<open>c\<close> is in \<open>s\<close>; \<open>(s, '')\<close> otherwise.\<close>

definition split_at_char :: "char \<Rightarrow> string \<Rightarrow> string \<times> string" where
  "split_at_char d s =
     (if d \<in> set s then (takeWhile (\<lambda>c. c \<noteq> d) s, tl (dropWhile (\<lambda>c. c \<noteq> d) s))
      else (s, []))"

text \<open>The text after the last slash; the whole string when it has no slash.\<close>

definition last_segment :: "string \<Rightarrow> string" where
  "last_segment s = rev (takeWhile (\<lambda>c. c \<noteq> CHR ''/'') (rev s))"

text \<open>
  \<^verbatim>\<open>_splitparams\<close>: a semicolon is looked for from the last slash on (in the whole
  string when there is no slash).
\<close>

definition splitparams :: "string \<Rightarrow> string \<times> string" where
  "splitparams url =
     (let seg = last_segment url;
          front = take (length url - length seg) url
      in if CHR '';'' \<in> set seg
         then (front @ takeWhile (\<lambda>c. c \<noteq> CHR '';'') seg,
               tl (dropWhile (\<lambda>c. c \<noteq> CHR '';'') seg))
         else (url, []))"

definition urlparse :: "library \<Rightarrow> string \<Rightarrow> py_exception + parse_result" where
  "urlparse lib url0 =
     (let url1 = filter (\<lambda>c. \<not> unsafe_url_byte c) (dropWhile c0_control_or_space url0);
          (sch, url2) = split_scheme url1;
          (nl, url3) = splitnetloc url2
      in case check_netloc lib nl of
           Some m \<Rightarrow> Inl (ValueError m)
         | None \<Rightarrow>
             let (url4, frag) = split_at_char CHR ''#'' url3;
                 (url5, qry) = split_at_char CHR ''?'' url4;
                 (pth, prm) = (if sch \<in> set uses_params then splitparams url5 else (url5, []))
             in Inr \<lparr>scheme = sch, netloc = nl, path = pth, params = prm,
                      query = qry, fragment = frag\<rparr>)"

subsection \<open>Extracting bucket and key\<close>

text \<open>
  Lines 266 to 282 of \<^verbatim>\<open>generate_presigned_url_from_s3_url\<close>: the two URL formats
  the function accepts and the two \<^verbatim>\<open>ValueError\<close>s it raises.
\<close>

definition s3_suffix :: string where
  "s3_suffix = ''.s3.amazonaws.com''"

definition s3_endpoint :: string where
  "s3_endpoint = ''s3.amazonaws.com''"

definition extract_bucket_key :: "string \<Rightarrow> parse_result \<Rightarrow> py_exception + string \<times> string" where
  "extract_bucket_key s3_url parsed =
     (case
        (if str_contains s3_suffix (netloc parsed) then
           Inr (split_head s3_suffix (netloc parsed), lstrip_slash (path parsed))
         else if netloc parsed = s3_endpoint then
           (let path_parts = split_slash_once (lstrip_slash (path parsed))
            in Inr (hd path_parts, if length path_parts > 1 then path_parts ! 1 else []))
         else Inl (ValueError (''Unrecognized S3 URL format: '' @ s3_url)))
      of
        Inl e \<Rightarrow> Inl e
      | Inr (bucket, key) \<Rightarrow>
          if bucket = [] \<or> key = []
          then Inl (ValueError (''Could not extract bucket and key from URL: '' @ s3_url))
          else Inr (bucket, key))"

text \<open>The parser of the specification: \<^verbatim>\<open>urlparse\<close>, then the extraction.\<close>

definition parse_s3_url :: "library \<Rightarrow> string \<Rightarrow> py_exception + string \<times> string" where
  "parse_s3_url lib s3_url =
     (case urlparse lib s3_url of
        Inl e \<Rightarrow> Inl e
      | Inr parsed \<Rightarrow> extract_bucket_key s3_url parsed)"

text \<open>
  The texts that \<^verbatim>\<open>urlparse\<close> leaves in place: a host is ASCII and has no tab, CR or
  LF, none of the delimiters \<open>/ ? #\<close> that end the network location, and no bracket;
  a path has no tab, CR or LF and no \<open>?\<close> or \<open>#\<close>, which start the query and the
  fragment; a path without parameters has, besides, no \<open>;\<close> in its last segment.
\<close>

definition host_text :: "string \<Rightarrow> bool" where
  "host_text h =
     list_all (\<lambda>c. ascii_byte c \<and> \<not> netloc_delim c \<and> \<not> unsafe_url_byte c
                    \<and> c \<noteq> CHR ''['' \<and> c \<noteq> CHR '']'') h"

definition path_chars :: "string \<Rightarrow> bool" where
  "path_chars p = list_all (\<lambda>c. c \<noteq> CHR ''?'' \<and> c \<noteq> CHR ''#'' \<and> \<not> unsafe_url_byte c) p"

definition path_text :: "string \<Rightarrow> bool" where
  "path_text p = (path_chars p \<and> CHR '';'' \<notin> set (last_segment p))"

subsection \<open>The wire\<close>

text \<open>
  What the handler writes to the socket, in order: status lines, header lines, the blank
  line that ends a header block, and JSON documents
  (\<^verbatim>\<open>wfile.write(json.dumps(d).encode())\<close> writes the document \<open>d\<close>). The
  \<^verbatim>\<open>Server\<close> and \<^verbatim>\<open>Date\<close> headers that the base class adds to every status line
  are left out.
\<close>

datatype wire_event =
    StatusLine nat
  | HeaderLine string string
  | EndHeaders
  | Body json

text \<open>
  \<^verbatim>\<open>send_response\<close>, \<^verbatim>\<open>send_header\<close> and \<^verbatim>\<open>end_headers\<close> of
  \<^verbatim>\<open>BaseHTTPRequestHandler\<close> write nothing when the request version is
  \<^verbatim>\<open>HTTP/0.9\<close>. \<^verbatim>\<open>parse_request\<close> sets that version for a request line of two
  words (\<^verbatim>\<open>GET /path\<close>, which it accepts for \<^verbatim>\<open>GET\<close> only) and for one of three
  words whose last is \<^verbatim>\<open>HTTP/0.9\<close> (with any command). The lines of a header block
  are buffered and written by \<^verbatim>\<open>end_headers\<close>; the handler writes nothing else in
  between, so the order on the wire is the order of the calls.
\<close>

definition send_response :: "string \<Rightarrow> nat \<Rightarrow> wire_event list" where
  "send_response request_version code =
     (if request_version \<noteq> ''HTTP/0.9'' then [StatusLine code] else [])"

definition send_header :: "string \<Rightarrow> string \<Rightarrow> string \<Rightarrow> wire_event list" where
  "send_header request_version keyword val =
     (if request_version \<noteq> ''HTTP/0.9'' then [HeaderLine keyword val] else [])"

definition end_headers :: "string \<Rightarrow> wire_event list" where
  "end_headers request_version =
     (if request_version \<noteq> ''HTTP/0.9'' then [EndHeaders] else [])"

text \<open>
  The outcome of handling one request: the bytes on the wire, the calls of the signing
  delegate, each with its bucket, key and expiration, and whether the handler is blocked:
  it waits for bytes of the body that never come, and writes nothing more.
\<close>

record outcome =
  wire :: "wire_event list"
  sign_calls :: "(string \<times> string \<times> json) list"
  blocked :: bool

subsection \<open>\<^verbatim>\<open>generate_presigned_url_from_s3_url\<close>\<close>

text \<open>
  The three \<^verbatim>\<open>except\<close> clauses of the function, in their order, and the function:
  the extraction, the line it prints with the bucket, the key and the expiration, and
  the call of the delegate.
\<close>

fun wrap_exception :: "py_exception \<Rightarrow> py_exception" where
  "wrap_exception NoCredentialsError =
     Exception ''AWS credentials not found. Please configure your AWS credentials.''"
| "wrap_exception (ClientError m) = Exception (''AWS client error: '' @ m)"
| "wrap_exception e = Exception (''Error generating presigned URL: '' @ exc_str e)"

definition generate_presigned_url_from_s3_url ::
  "library \<Rightarrow> string \<Rightarrow> json \<Rightarrow> (string \<times> string \<times> json) list \<times> (py_exception + string)" where
  "generate_presigned_url_from_s3_url lib s3_url expires_in =
     (case parse_s3_url lib s3_url of
        Inl e \<Rightarrow> ([], Inl (wrap_exception e))
      | Inr (bucket, key) \<Rightarrow>
          (case print_error lib [JStr bucket, JStr key, expires_in] of
             Some e \<Rightarrow> ([], Inl (wrap_exception e))
           | None \<Rightarrow>
               ([(bucket, key, expires_in)],
                case presign lib bucket key expires_in of
                  Inl e \<Rightarrow> Inl (wrap_exception e)
                | Inr presigned_url \<Rightarrow> Inr presigned_url)))"

subsection \<open>The request handlers\<close>

definition do_OPTIONS :: "string \<Rightarrow> wire_event list" where
  "do_OPTIONS request_version =
     send_response request_version 200
     @ send_header request_version ''Access-Control-Allow-Origin'' ''*''
     @ send_header request_version ''Access-Control-Allow-Methods'' ''GET, POST, OPTIONS''
     @ send_header request_version ''Access-Control-Allow-Headers'' ''Content-Type''
     @ end_headers request_version"

text \<open>The header block both handlers write first, before they look at the request.\<close>

definition ok_headers :: "string \<Rightarrow> wire_event list" where
  "ok_headers request_version =
     send_response request_version 200
     @ send_header request_version ''Content-Type'' ''application/json''
     @ send_header request_version ''Access-Control-Allow-Origin'' ''*''
     @ end_headers request_version"

text \<open>
  The \<^verbatim>\<open>except Exception as e\<close> branch of both handlers: a second status line and
  header block, then the error document. \<open>sent\<close> is what the handler had written when
  the exception was raised.
\<close>

definition error_headers :: "string \<Rightarrow> wire_event list" where
  "error_headers request_version =
     send_response request_version 500
     @ send_header request_version ''Content-Type'' ''application/json''
     @ send_header request_version ''Access-Control-Allow-Origin'' ''*''
     @ end_headers request_version"

definition error_document :: "library \<Rightarrow> py_exception \<Rightarrow> json" where
  "error_document lib e =
     JObj [(''error'', JStr (exc_str e)),
           (''status'', JStr ''error''),
           (''processing_time_ms'', JFloat (elapsed_ms lib))]"

definition handle_exception ::
  "library \<Rightarrow> string \<Rightarrow> wire_event list \<Rightarrow> (string \<times> string \<times> json) list \<Rightarrow> py_exception
     \<Rightarrow> outcome" where
  "handle_exception lib request_version sent calls e =
     \<lparr>wire = sent @ error_headers request_version @ [Body (error_document lib e)],
      sign_calls = calls, blocked = False\<rparr>"

definition success_document :: "library \<Rightarrow> json \<Rightarrow> string \<Rightarrow> json \<Rightarrow> json" where
  "success_document lib s3_url presigned_url expires_in =
     JObj [(''original_url'', s3_url),
           (''presigned_url'', JStr presigned_url),
           (''expires_in'', expires_in),
           (''status'', JStr ''success''),
           (''processing_time_ms'', JFloat (elapsed_ms lib))]"

definition missing_url_parameter :: json where
  "missing_url_parameter =
     JObj [(''error'', JStr ''Missing url parameter''),
           (''usage'', JStr ''GET /?url=https://fleetdata-production.s3.amazonaws.com/...'')]"

text \<open>
  \<^verbatim>\<open>do_GET\<close>. The request path is parsed before anything is written; from then on the
  200 header block is on the wire. \<^verbatim>\<open>query_params['url'][0]\<close> raises
  \<^verbatim>\<open>IndexError\<close> on an empty list.
\<close>

definition do_GET :: "library \<Rightarrow> string \<Rightarrow> string \<Rightarrow> outcome" where
  "do_GET lib request_version request_path =
     (case urlparse lib request_path of
        Inl e \<Rightarrow> handle_exception lib request_version [] [] e
      | Inr parsed_url \<Rightarrow>
          (let query_params = parse_qs lib (query parsed_url);
               sent = ok_headers request_version in
           case map_of query_params ''url'' of
             None \<Rightarrow>
               \<lparr>wire = sent @ [Body missing_url_parameter], sign_calls = [], blocked = False\<rparr>
           | Some [] \<Rightarrow>
               handle_exception lib request_version sent [] (IndexError ''list index out of range'')
           | Some (s3_url # _) \<Rightarrow>
               (case generate_presigned_url_from_s3_url lib s3_url (JInt 3600) of
                  (calls, Inl e) \<Rightarrow> handle_exception lib request_version sent calls e
                | (calls, Inr presigned_url) \<Rightarrow>
                    \<lparr>wire = sent @
                       [Body (success_document lib (JStr s3_url) presigned_url (JInt 3600))],
                     sign_calls = calls, blocked = False\<rparr>)))"

text \<open>
  The request body as the client sends it: the bytes, and whether the client closes its
  side of the connection after them.
\<close>

record stream =
  bytes_sent :: bytes
  closed :: bool

text \<open>
  \<^verbatim>\<open>rfile.read(n)\<close> on the buffered reader of the socket. A length below \<open>-1\<close>
  raises \<^verbatim>\<open>ValueError\<close>, one that does not fit a machine index (\<open>2^63\<close> and above)
  \<^verbatim>\<open>OverflowError\<close>, and one whose buffer cannot be allocated \<^verbatim>\<open>MemoryError\<close>.
  Otherwise the read returns \<open>n\<close> bytes, or all the bytes when the stream ends before
  (always so for \<open>-1\<close>); while bytes are missing and the client has not closed its side
  the read waits, for ever when the client sends no more: the result is \<open>Inr None\<close>.
\<close>

definition rfile_read :: "library \<Rightarrow> stream \<Rightarrow> int \<Rightarrow> py_exception + bytes option" where
  "rfile_read lib rfile n =
     (if n < - 1 then Inl (ValueError ''read length must be non-negative or -1'')
      else if n \<ge> 2 ^ 63
        then Inl (OverflowError (''cannot fit '' @ quoted ''int'' @ '' into an index-sized integer''))
      else if n = - 1 then (if closed rfile then Inr (Some (bytes_sent rfile)) else Inr None)
      else if out_of_memory lib n then Inl MemoryError
      else if nat n \<le> length (bytes_sent rfile) then Inr (Some (take (nat n) (bytes_sent rfile)))
      else if closed rfile then Inr (Some (bytes_sent rfile))
      else Inr None)"

text \<open>The name of a JSON value's Python type.\<close>

fun type_name :: "json \<Rightarrow> string" where
  "type_name JNull = ''NoneType''"
| "type_name (JBool b) = ''bool''"
| "type_name (JInt i) = ''int''"
| "type_name (JFloat f) = ''float''"
| "type_name (JStr s) = ''str''"
| "type_name (JArr xs) = ''list''"
| "type_name (JObj kvs) = ''dict''"

text \<open>\<^verbatim>\<open>'url' in request_data\<close>, whatever JSON value \<open>request_data\<close> is.\<close>

fun key_in :: "string \<Rightarrow> json \<Rightarrow> py_exception + bool" where
  "key_in k (JObj kvs) = Inr (k \<in> fst ` set kvs)"
| "key_in k (JStr s) = Inr (str_contains k s)"
| "key_in k (JArr xs) = Inr (JStr k \<in> set xs)"
| "key_in k v = Inl (TypeError (''argument of type '' @ quoted (type_name v) @ '' is not iterable''))"

text \<open>\<^verbatim>\<open>request_data['url']\<close>, reached only when \<open>'url' in request_data\<close> holds.\<close>

fun subscript :: "json \<Rightarrow> string \<Rightarrow> py_exception + json" where
  "subscript (JObj kvs) k =
     (case map_of kvs k of None \<Rightarrow> Inl (KeyError (quoted k)) | Some v \<Rightarrow> Inr v)"
| "subscript (JStr s) k =
     Inl (TypeError (''string indices must be integers, not '' @ quoted ''str''))"
| "subscript (JArr xs) k = Inl (TypeError ''list indices must be integers or slices, not str'')"
| "subscript v k = Inl (TypeError (quoted (type_name v) @ '' object is not subscriptable''))"

text \<open>\<^verbatim>\<open>request_data.get('expires_in', 3600)\<close> on a dict.\<close>

definition get_default :: "(string \<times> json) list \<Rightarrow> string \<Rightarrow> json \<Rightarrow> json" where
  "get_default kvs k d = (case map_of kvs k of None \<Rightarrow> d | Some v \<Rightarrow> v)"

definition invalid_json :: "string \<Rightarrow> string \<Rightarrow> json" where
  "invalid_json details raw_data =
     JObj [(''error'', JStr ''Invalid JSON in request body''),
           (''details'', JStr details),
           (''raw_data'', JStr raw_data)]"

definition missing_url_in_body :: "json \<Rightarrow> json" where
  \<open>missing_url_in_body request_data =
     JObj [(''error'', JStr ''Missing url in JSON body''),
           (''usage'', JStr ''POST with JSON: {"url": "https://fleetdata-production.s3.amazonaws.com/..."}''),
           (''received_data'', request_data)]\<close>

text \<open>
  The call of \<^verbatim>\<open>generate_presigned_url_from_s3_url\<close> from \<^verbatim>\<open>do_POST\<close>, where the URL
  is whatever JSON value the body holds under \<open>url\<close>. One that is not a string makes
  the parsing raise inside the function's \<^verbatim>\<open>try\<close>, and its last \<^verbatim>\<open>except\<close> clause
  wraps the exception.
\<close>

definition generate_for_json ::
  "library \<Rightarrow> json \<Rightarrow> json \<Rightarrow> (string \<times> string \<times> json) list \<times> (py_exception + string)" where
  "generate_for_json lib s3_url expires_in =
     (case s3_url of
        JStr u \<Rightarrow> generate_presigned_url_from_s3_url lib u expires_in
      | _ \<Rightarrow> ([], Inl (wrap_exception (TypeError (nonstring_url_error lib s3_url)))))"

text \<open>
  The part of \<^verbatim>\<open>do_POST\<close> after the JSON has been parsed. Past the two membership
  tests \<open>request_data\<close> is a dict, the only value for which both succeed.
\<close>

definition post_parsed :: "library \<Rightarrow> string \<Rightarrow> json \<Rightarrow> outcome" where
  "post_parsed lib request_version request_data =
     (let sent = ok_headers request_version in
      case key_in ''url'' request_data of
        Inl e \<Rightarrow> handle_exception lib request_version sent [] e
      | Inr False \<Rightarrow>
          \<lparr>wire = sent @ [Body (missing_url_in_body request_data)], sign_calls = [],
           blocked = False\<rparr>
      | Inr True \<Rightarrow>
          (case subscript request_data ''url'' of
             Inl e \<Rightarrow> handle_exception lib request_version sent [] e
           | Inr s3_url \<Rightarrow>
               (let expires_in =
                      (case request_data of
                         JObj kvs \<Rightarrow> get_default kvs ''expires_in'' (JInt 3600)
                       | _ \<Rightarrow> JInt 3600)
                in case generate_for_json lib s3_url expires_in of
                     (calls, Inl e) \<Rightarrow> handle_exception lib request_version sent calls e
                   | (calls, Inr presigned_url) \<Rightarrow>
                       \<lparr>wire = sent @
                          [Body (success_document lib s3_url presigned_url expires_in)],
                        sign_calls = calls, blocked = False\<rparr>)))"

text \<open>
  \<^verbatim>\<open>do_POST\<close>. \<open>headers\<close> is the lookup of a request header as \<^verbatim>\<open>self.headers[name]\<close>
  does it (whatever the case of the name), \<open>None\<close> when the header is missing:
  \<^verbatim>\<open>self.headers[name]\<close> returns \<^verbatim>\<open>None\<close> then, and \<^verbatim>\<open>int(None)\<close> raises
  \<^verbatim>\<open>TypeError\<close>. The 200 header block is written first. Of the exceptions of
  \<^verbatim>\<open>json.loads\<close> the inner \<^verbatim>\<open>except\<close> clause catches \<^verbatim>\<open>JSONDecodeError\<close> only;
  every other one reaches the outer clause, and so does an exception of the line that
  prints the parsed value.
\<close>

definition do_POST :: "library \<Rightarrow> string \<Rightarrow> (string \<Rightarrow> string option) \<Rightarrow> stream \<Rightarrow> outcome" where
  "do_POST lib request_version headers rfile =
     (let sent = ok_headers request_version in
      case headers ''Content-Length'' of
        None \<Rightarrow>
          handle_exception lib request_version sent []
            (TypeError (''int() argument must be a string, a bytes-like object or a real number, not ''
               @ quoted ''NoneType''))
      | Some v \<Rightarrow>
          (case py_int lib v of
             Inl m \<Rightarrow> handle_exception lib request_version sent [] (ValueError m)
           | Inr content_length \<Rightarrow>
               (case rfile_read lib rfile content_length of
                  Inl e \<Rightarrow> handle_exception lib request_version sent [] e
                | Inr None \<Rightarrow> \<lparr>wire = sent, sign_calls = [], blocked = True\<rparr>
                | Inr (Some raw_post_data) \<Rightarrow>
                    (case utf8_decode lib raw_post_data of
                       Inl e \<Rightarrow> handle_exception lib request_version sent [] e
                     | Inr text \<Rightarrow>
                         (case json_loads lib text of
                            Inl (JSONDecodeError details) \<Rightarrow>
                              \<lparr>wire = sent @
                                 [Body (invalid_json details (utf8_text lib raw_post_data))],
                               sign_calls = [], blocked = False\<rparr>
                          | Inl e \<Rightarrow> handle_exception lib request_version sent [] e
                          | Inr request_data \<Rightarrow>
                              (case print_error lib [request_data] of
                                 Some e \<Rightarrow> handle_exception lib request_version sent [] e
                               | None \<Rightarrow> post_parsed lib request_version request_data))))))"

subsection \<open>What the client reads\<close>

text \<open>
  An HTTP client takes the first status line on the wire as the status of the
  response, and everything after the first blank line as its body.
\<close>

fun response_status :: "wire_event list \<Rightarrow> nat option" where
  "response_status [] = None"
| "response_status (StatusLine code # es) = Some code"
| "response_status (e # es) = response_status es"

fun response_body :: "wire_event list \<Rightarrow> wire_event list" where
  "response_body [] = []"
| "response_body (EndHeaders # es) = es"
| "response_body (e # es) = response_body es"

text \<open>
  The header blocks on the wire: for every status line, its code and the header lines
  that follow it.
\<close>

fun block_headers :: "wire_event list \<Rightarrow> (string \<times> string) list" where
  "block_headers (HeaderLine k v # es) = (k, v) # block_headers es"
| "block_headers es = []"

fun header_blocks :: "wire_event list \<Rightarrow> (nat \<times> (string \<times> string) list) list" where
  "header_blocks [] = []"
| "header_blocks (StatusLine code # es) = (code, block_headers es) # header_blocks es"
| "header_blocks (e # es) = header_blocks es"

text \<open>
  There is a header block, and every header block has \<^verbatim>\<open>Access-Control-Allow-Origin: *\<close>.
\<close>

definition cors_blocks :: "wire_event list \<Rightarrow> bool" where
  "cors_blocks w =
     (header_blocks w \<noteq> [] \<and>
      list_all (\<lambda>b. (''Access-Control-Allow-Origin'', ''*'') \<in> set (snd b)) (header_blocks w))"

subsection \<open>Library doubles for closed examples\<close>

text \<open>
  A library whose functions are constant: the query parameters, the value of the
  \<^verbatim>\<open>Content-Length\<close> header, the parsed body and the signing result are given. Its UTF-8
  decoder accepts the bytes below 128, it has memory for every buffer, it prints every
  line, and it takes no bracketed host for an IP address.
\<close>

definition test_library ::
  "(string \<times> string list) list \<Rightarrow> string + int \<Rightarrow> py_exception + json \<Rightarrow> py_exception + string
     \<Rightarrow> library" where
  "test_library qs n body signed =
     \<lparr>ip_address = (\<lambda>h. Inl (quoted h @ '' does not appear to be an IPv4 or IPv6 address'')),
      nfkc_netloc_error = (\<lambda>nl. None),
      parse_qs = (\<lambda>q. qs),
      py_int = (\<lambda>s. n),
      out_of_memory = (\<lambda>k. False),
      utf8_valid = list_all ascii_byte,
      utf8_text = filter ascii_byte,
      utf8_error = (\<lambda>b. ''invalid start byte''),
      json_loads = (\<lambda>t. body),
      print_error = (\<lambda>vs. None),
      presign = (\<lambda>bucket key expires_in. signed),
      nonstring_url_error = (\<lambda>v. ''a bytes-like object is required''),
      elapsed_ms = 0\<rparr>"

section \<open>Properties of the request handlers\<close>

subsection \<open>The header blocks, by request version\<close>

lemma ok_headers_later:
  "request_version \<noteq> ''HTTP/0.9'' \<Longrightarrow>
   ok_headers request_version =
     [StatusLine 200,
      HeaderLine ''Content-Type'' ''application/json'',
      HeaderLine ''Access-Control-Allow-Origin'' ''*'',
      EndHeaders]"
  by (simp add: ok_headers_def send_response_def send_header_def end_headers_def)

lemma error_headers_later:
  "request_version \<noteq> ''HTTP/0.9'' \<Longrightarrow>
   error_headers request_version =
     [StatusLine 500,
      HeaderLine ''Content-Type'' ''application/json'',
      HeaderLine ''Access-Control-Allow-Origin'' ''*'',
      EndHeaders]"
  by (simp add: error_headers_def send_response_def send_header_def end_headers_def)

lemma headers_09: "ok_headers ''HTTP/0.9'' = []" "error_headers ''HTTP/0.9'' = []"
  by (simp_all add: ok_headers_def error_headers_def send_response_def send_header_def
      end_headers_def)

subsection \<open>GET without a \<open>url\<close> parameter\<close>

text \<open>
  Claim C7, as amended. A GET request of a version other than HTTP/0.9, whose path
  \<^verbatim>\<open>urlparse\<close> accepts and whose query string has no \<open>url\<close> parameter, is answered
  with status 200 and the JSON document \<open>{error: "Missing url parameter", usage: ...}\<close>,
  and the signing delegate is not called. As the claim is stated it fails: a request
  path that \<^verbatim>\<open>urlparse\<close> rejects is answered with status 500 and the generic error
  document, and the answer to an HTTP/0.9 request has no status line at all.
\<close>

theorem do_GET_missing_url:
  assumes "request_version \<noteq> ''HTTP/0.9''"
      and "urlparse lib request_path = Inr parsed_url"
      and "map_of (parse_qs lib (query parsed_url)) ''url'' = None"
  shows "wire (do_GET lib request_version request_path) =
           [StatusLine 200,
            HeaderLine ''Content-Type'' ''application/json'',
            HeaderLine ''Access-Control-Allow-Origin'' ''*'',
            EndHeaders,
            Body (JObj [(''error'', JStr ''Missing url parameter''),
                        (''usage'', JStr ''GET /?url=https://fleetdata-production.s3.amazonaws.com/...'')])]
         \<and> response_status (wire (do_GET lib request_version request_path)) = Some 200
         \<and> sign_calls (do_GET lib request_version request_path) = []"
  using assms
  by (simp add: do_GET_def ok_headers_later missing_url_parameter_def)

theorem do_GET_missing_url_witness:
  "''HTTP/1.1'' \<noteq> ''HTTP/0.9''
   \<and> urlparse (test_library [] (Inl []) (Inl MemoryError) (Inl NoCredentialsError)) ''/'' =
       Inr \<lparr>scheme = [], netloc = [], path = ''/'', params = [], query = [], fragment = []\<rparr>
   \<and> map_of (parse_qs (test_library [] (Inl []) (Inl MemoryError) (Inl NoCredentialsError)) [])
         ''url'' = None
   \<and> response_status
        (wire (do_GET (test_library [] (Inl []) (Inl MemoryError) (Inl NoCredentialsError))
                 ''HTTP/1.1'' ''/'')) = Some 200
   \<and> response_body
        (wire (do_GET (test_library [] (Inl []) (Inl MemoryError) (Inl NoCredentialsError))
                 ''HTTP/1.1'' ''/'')) =
        [Body (JObj [(''error'', JStr ''Missing url parameter''),
                     (''usage'', JStr ''GET /?url=https://fleetdata-production.s3.amazonaws.com/...'')])]
   \<and> sign_calls (do_GET (test_library [] (Inl []) (Inl MemoryError) (Inl NoCredentialsError))
                    ''HTTP/1.1'' ''/'') = []"
proof -
  let ?lib = "test_library [] (Inl []) (Inl MemoryError) (Inl NoCredentialsError)"
  have v: "''HTTP/1.1'' \<noteq> ''HTTP/0.9''" by simp
  have p: "urlparse ?lib ''/'' =
      Inr \<lparr>scheme = [], netloc = [], path = ''/'', params = [], query = [], fragment = []\<rparr>"
    by code_simp
  have q: "map_of (parse_qs ?lib
      (query \<lparr>scheme = [], netloc = [], path = ''/'', params = [], query = [], fragment = []\<rparr>))
      ''url'' = None"
    by (simp add: test_library_def)
  from do_GET_missing_url [OF v p q] p q show ?thesis by simp
qed

theorem do_GET_missing_url_counterexample:
  "response_status
     (wire (do_GET (test_library [] (Inl []) (Inl MemoryError) (Inl NoCredentialsError))
              ''HTTP/1.1'' ''http://[bad/'')) = Some 500
   \<and> response_body
     (wire (do_GET (test_library [] (Inl []) (Inl MemoryError) (Inl NoCredentialsError))
              ''HTTP/1.1'' ''http://[bad/'')) =
       [Body (JObj [(''error'', JStr ''Invalid IPv6 URL''),
                    (''status'', JStr ''error''),
                    (''processing_time_ms'', JFloat 0)])]
   \<and> wire (do_GET (test_library [] (Inl []) (Inl MemoryError) (Inl NoCredentialsError))
              ''HTTP/0.9'' ''/'') =
       [Body (JObj [(''error'', JStr ''Missing url parameter''),
                    (''usage'', JStr ''GET /?url=https://fleetdata-production.s3.amazonaws.com/...'')])]
   \<and> response_status
     (wire (do_GET (test_library [] (Inl []) (Inl MemoryError) (Inl NoCredentialsError))
              ''HTTP/0.9'' ''/'')) = None"
proof -
  let ?lib = "test_library [] (Inl []) (Inl MemoryError) (Inl NoCredentialsError)"
  have b: "urlparse ?lib ''http://[bad/'' = Inl (ValueError ''Invalid IPv6 URL'')"
    by code_simp
  have p: "urlparse ?lib ''/'' =
      Inr \<lparr>scheme = [], netloc = [], path = ''/'', params = [], query = [], fragment = []\<rparr>"
    by code_simp
  have q: "parse_qs ?lib [] = []" and e: "elapsed_ms ?lib = 0"
    by (simp_all add: test_library_def)
  show ?thesis
    by (simp add: do_GET_def b p q e handle_exception_def error_headers_later error_document_def
        headers_09 missing_url_parameter_def)
qed

subsection \<open>POST with a body that is not JSON\<close>

text \<open>
  Claim C6, as amended. A POST request whose body text makes \<^verbatim>\<open>json.loads\<close> raise
  \<^verbatim>\<open>JSONDecodeError\<close> is answered with the document
  \<open>{error: "Invalid JSON in request body", details, raw_data}\<close>, where \<open>raw_data\<close> is
  the body text that was handed to \<^verbatim>\<open>json.loads\<close>. The request has a
  \<^verbatim>\<open>Content-Length\<close> header that \<^verbatim>\<open>int\<close> accepts, the read of that many bytes
  succeeds, and the bytes read decode as UTF-8 (they are a text). As the claim is stated
  it fails: on a text that is not JSON \<^verbatim>\<open>json.loads\<close> can raise another exception
  (\<^verbatim>\<open>RecursionError\<close> on a thousand opening brackets), which the inner \<^verbatim>\<open>except\<close>
  clause does not catch, and the answer is the generic error document.
\<close>

theorem do_POST_invalid_json:
  assumes "headers ''Content-Length'' = Some v"
      and "py_int lib v = Inr n"
      and "rfile_read lib rfile n = Inr (Some raw)"
      and "utf8_valid lib raw"
      and "json_loads lib (utf8_text lib raw) = Inl (JSONDecodeError details)"
  shows "wire (do_POST lib request_version headers rfile) =
           ok_headers request_version @
           [Body (JObj [(''error'', JStr ''Invalid JSON in request body''),
                        (''details'', JStr details),
                        (''raw_data'', JStr (utf8_text lib raw))])]
         \<and> sign_calls (do_POST lib request_version headers rfile) = []"
  using assms
  by (simp add: do_POST_def utf8_decode_def invalid_json_def)

theorem do_POST_invalid_json_witness:
  "[''Content-Length'' \<mapsto> ''8''] ''Content-Length'' = Some ''8''
   \<and> py_int (test_library [] (Inr 8)
        (Inl (JSONDecodeError ''Expecting value: line 1 column 1 (char 0)''))
        (Inl NoCredentialsError)) ''8'' = Inr 8
   \<and> rfile_read (test_library [] (Inr 8)
        (Inl (JSONDecodeError ''Expecting value: line 1 column 1 (char 0)''))
        (Inl NoCredentialsError)) \<lparr>bytes_sent = ''not json'', closed = False\<rparr> 8 =
       Inr (Some ''not json'')
   \<and> utf8_valid (test_library [] (Inr 8)
        (Inl (JSONDecodeError ''Expecting value: line 1 column 1 (char 0)''))
        (Inl NoCredentialsError)) ''not json''
   \<and> response_body (wire (do_POST (test_library [] (Inr 8)
        (Inl (JSONDecodeError ''Expecting value: line 1 column 1 (char 0)''))
        (Inl NoCredentialsError)) ''HTTP/1.1'' [''Content-Length'' \<mapsto> ''8'']
        \<lparr>bytes_sent = ''not json'', closed = False\<rparr>)) =
       [Body (JObj [(''error'', JStr ''Invalid JSON in request body''),
                    (''details'', JStr ''Expecting value: line 1 column 1 (char 0)''),
                    (''raw_data'', JStr ''not json'')])]"
proof -
  let ?lib = "test_library [] (Inr 8)
      (Inl (JSONDecodeError ''Expecting value: line 1 column 1 (char 0)'')) (Inl NoCredentialsError)"
  have h: "[''Content-Length'' \<mapsto> ''8''] ''Content-Length'' = Some ''8''" by simp
  have i: "py_int ?lib ''8'' = Inr 8" by (simp add: test_library_def)
  have r: "rfile_read ?lib \<lparr>bytes_sent = ''not json'', closed = False\<rparr> 8 = Inr (Some ''not json'')"
    by (simp add: rfile_read_def test_library_def)
  have u: "utf8_valid ?lib ''not json''"
    by (simp add: test_library_def ascii_byte_def)
  have t: "utf8_text ?lib ''not json'' = ''not json''"
    by (simp add: test_library_def ascii_byte_def)
  have j: "json_loads ?lib (utf8_text ?lib ''not json'') =
      Inl (JSONDecodeError ''Expecting value: line 1 column 1 (char 0)'')"
    by (simp add: test_library_def)
  from do_POST_invalid_json
      [where headers = "[''Content-Length'' \<mapsto> ''8'']"
         and rfile = "\<lparr>bytes_sent = ''not json'', closed = False\<rparr>"
         and request_version = "''HTTP/1.1''", OF h i r u j]
    h i r u t
  show ?thesis by (simp add: ok_headers_later)
qed

theorem do_POST_invalid_json_counterexample:
  "wire (do_POST (test_library [] (Inr 1000)
        (Inl (RecursionError
           ''maximum recursion depth exceeded while decoding a JSON array from a unicode string''))
        (Inl NoCredentialsError))
      ''HTTP/1.1'' [''Content-Length'' \<mapsto> ''1000'']
      \<lparr>bytes_sent = replicate 1000 CHR ''['', closed = False\<rparr>) =
     [StatusLine 200,
      HeaderLine ''Content-Type'' ''application/json'',
      HeaderLine ''Access-Control-Allow-Origin'' ''*'',
      EndHeaders,
      StatusLine 500,
      HeaderLine ''Content-Type'' ''application/json'',
      HeaderLine ''Access-Control-Allow-Origin'' ''*'',
      EndHeaders,
      Body (JObj [(''error'', JStr
                     ''maximum recursion depth exceeded while decoding a JSON array from a unicode string''),
                  (''status'', JStr ''error''),
                  (''processing_time_ms'', JFloat 0)])]"
proof -
  let ?lib = "test_library [] (Inr 1000)
      (Inl (RecursionError
         ''maximum recursion depth exceeded while decoding a JSON array from a unicode string''))
      (Inl NoCredentialsError)"
  have r: "rfile_read ?lib \<lparr>bytes_sent = replicate 1000 CHR ''['', closed = False\<rparr> 1000 =
      Inr (Some (replicate 1000 CHR ''[''))"
    by (simp add: rfile_read_def test_library_def)
  have u: "utf8_valid ?lib (replicate 1000 CHR ''['')"
    by (simp add: test_library_def ascii_byte_def list_all_iff)
  have i: "py_int ?lib ''1000'' = Inr 1000" by (simp add: test_library_def)
  have j: "json_loads ?lib (utf8_text ?lib (replicate 1000 CHR ''['')) =
      Inl (RecursionError
         ''maximum recursion depth exceeded while decoding a JSON array from a unicode string'')"
    by (simp add: test_library_def)
  have e: "elapsed_ms ?lib = 0" by (simp add: test_library_def)
  show ?thesis
    by (simp add: do_POST_def i r u j e utf8_decode_def handle_exception_def error_document_def
        ok_headers_later error_headers_later)
qed

subsection \<open>POST without a \<^verbatim>\<open>Content-Length\<close> header\<close>

text \<open>
  Claim C9. A POST request without a \<^verbatim>\<open>Content-Length\<close> header does not crash the
  handler: \<^verbatim>\<open>int(None)\<close> raises inside the \<^verbatim>\<open>try\<close>, the generic handler catches the
  exception, and the document \<open>{error, status: "error", processing_time_ms}\<close> is written
  to the client, after the 200 header block that was already on the wire and a second
  header block with status 500. For a request of version HTTP/0.9 the document is all
  that is written.
\<close>

theorem do_POST_no_content_length:
  assumes "headers ''Content-Length'' = None"
  shows "(request_version \<noteq> ''HTTP/0.9'' \<longrightarrow>
          wire (do_POST lib request_version headers rfile) =
           [StatusLine 200,
            HeaderLine ''Content-Type'' ''application/json'',
            HeaderLine ''Access-Control-Allow-Origin'' ''*'',
            EndHeaders,
            StatusLine 500,
            HeaderLine ''Content-Type'' ''application/json'',
            HeaderLine ''Access-Control-Allow-Origin'' ''*'',
            EndHeaders,
            Body (JObj [(''error'', JStr (''int() argument must be a string, a bytes-like object or a real number, not '' @ quoted ''NoneType'')),
                        (''status'', JStr ''error''),
                        (''processing_time_ms'', JFloat (elapsed_ms lib))])])
         \<and> (request_version = ''HTTP/0.9'' \<longrightarrow>
          wire (do_POST lib request_version headers rfile) =
           [Body (JObj [(''error'', JStr (''int() argument must be a string, a bytes-like object or a real number, not '' @ quoted ''NoneType'')),
                        (''status'', JStr ''error''),
                        (''processing_time_ms'', JFloat (elapsed_ms lib))])])
         \<and> sign_calls (do_POST lib request_version headers rfile) = []"
  using assms
  by (simp add: do_POST_def handle_exception_def error_document_def ok_headers_later
      error_headers_later headers_09)

theorem do_POST_no_content_length_witness:
  "Map.empty ''Content-Length'' = (None :: string option)
   \<and> wire (do_POST (test_library [] (Inr 0) (Inl MemoryError) (Inl NoCredentialsError))
        ''HTTP/1.1'' Map.empty \<lparr>bytes_sent = ''{}'', closed = False\<rparr>) =
       [StatusLine 200,
        HeaderLine ''Content-Type'' ''application/json'',
        HeaderLine ''Access-Control-Allow-Origin'' ''*'',
        EndHeaders,
        StatusLine 500,
        HeaderLine ''Content-Type'' ''application/json'',
        HeaderLine ''Access-Control-Allow-Origin'' ''*'',
        EndHeaders,
        Body (JObj [(''error'', JStr (''int() argument must be a string, a bytes-like object or a real number, not '' @ quoted ''NoneType'')),
                    (''status'', JStr ''error''),
                    (''processing_time_ms'', JFloat 0)])]"
proof -
  have h: "Map.empty ''Content-Length'' = (None :: string option)" by simp
  from do_POST_no_content_length
      [where headers = Map.empty
         and lib = "test_library [] (Inr 0) (Inl MemoryError) (Inl NoCredentialsError)"
         and rfile = "\<lparr>bytes_sent = ''{}'', closed = False\<rparr>"
         and request_version = "''HTTP/1.1''", OF h]
  show ?thesis by (simp add: test_library_def)
qed

subsection \<open>POST with a body that is not UTF-8\<close>

text \<open>
  Claim C10. A POST request whose body bytes are not valid UTF-8 does not get the
  \<open>Invalid JSON in request body\<close> document: the \<^verbatim>\<open>UnicodeDecodeError\<close> is not a
  \<^verbatim>\<open>JSONDecodeError\<close>, so it reaches the generic handler, which writes
  \<open>{error, status: "error", processing_time_ms}\<close> with the text of the decoding error.
  The request has a \<^verbatim>\<open>Content-Length\<close> header that \<^verbatim>\<open>int\<close> accepts, and the read of
  that many bytes succeeds: the body bytes are the bytes read.
\<close>

theorem do_POST_invalid_utf8:
  assumes "headers ''Content-Length'' = Some v"
      and "py_int lib v = Inr n"
      and "rfile_read lib rfile n = Inr (Some raw)"
      and "\<not> utf8_valid lib raw"
  shows "wire (do_POST lib request_version headers rfile) =
           ok_headers request_version @ error_headers request_version @
           [Body (JObj [(''error'', JStr (utf8_error lib raw)),
                        (''status'', JStr ''error''),
                        (''processing_time_ms'', JFloat (elapsed_ms lib))])]
         \<and> (\<forall>details raw_data.
               Body (invalid_json details raw_data) \<notin> set (wire (do_POST lib request_version headers rfile)))
         \<and> sign_calls (do_POST lib request_version headers rfile) = []"
  using assms
  by (auto simp: do_POST_def utf8_decode_def handle_exception_def error_document_def
      invalid_json_def ok_headers_def error_headers_def send_response_def send_header_def
      end_headers_def)

theorem do_POST_invalid_utf8_witness:
  "[''Content-Length'' \<mapsto> ''2''] ''Content-Length'' = Some ''2''
   \<and> py_int (test_library [] (Inr 2) (Inl MemoryError) (Inl NoCredentialsError)) ''2'' = Inr 2
   \<and> rfile_read (test_library [] (Inr 2) (Inl MemoryError) (Inl NoCredentialsError))
        \<lparr>bytes_sent = [CHR 0xFF, CHR 0xFE], closed = False\<rparr> 2 = Inr (Some [CHR 0xFF, CHR 0xFE])
   \<and> \<not> utf8_valid (test_library [] (Inr 2) (Inl MemoryError) (Inl NoCredentialsError))
          [CHR 0xFF, CHR 0xFE]
   \<and> wire (do_POST (test_library [] (Inr 2) (Inl MemoryError) (Inl NoCredentialsError))
        ''HTTP/1.1'' [''Content-Length'' \<mapsto> ''2'']
        \<lparr>bytes_sent = [CHR 0xFF, CHR 0xFE], closed = False\<rparr>) =
       [StatusLine 200,
        HeaderLine ''Content-Type'' ''application/json'',
        HeaderLine ''Access-Control-Allow-Origin'' ''*'',
        EndHeaders,
        StatusLine 500,
        HeaderLine ''Content-Type'' ''application/json'',
        HeaderLine ''Access-Control-Allow-Origin'' ''*'',
        EndHeaders,
        Body (JObj [(''error'', JStr ''invalid start byte''),
                    (''status'', JStr ''error''),
                    (''processing_time_ms'', JFloat 0)])]"
proof -
  let ?lib = "test_library [] (Inr 2) (Inl MemoryError) (Inl NoCredentialsError)"
  have h: "[''Content-Length'' \<mapsto> ''2''] ''Content-Length'' = Some ''2''" by simp
  have i: "py_int ?lib ''2'' = Inr 2" by (simp add: test_library_def)
  have r: "rfile_read ?lib \<lparr>bytes_sent = [CHR 0xFF, CHR 0xFE], closed = False\<rparr> 2 =
      Inr (Some [CHR 0xFF, CHR 0xFE])"
    by (simp add: rfile_read_def test_library_def)
  have u: "\<not> utf8_valid ?lib [CHR 0xFF, CHR 0xFE]"
    by (simp add: test_library_def ascii_byte_def)
  from do_POST_invalid_utf8
      [where headers = "[''Content-Length'' \<mapsto> ''2'']"
         and rfile = "\<lparr>bytes_sent = [CHR 0xFF, CHR 0xFE], closed = False\<rparr>"
         and request_version = "''HTTP/1.1''", OF h i r u]
    h i r u
  show ?thesis by (simp add: test_library_def ok_headers_later error_headers_later)
qed

subsection \<open>POST: the expiration handed to the signing delegate\<close>

text \<open>
  After the membership test and the subscript, a dict whose \<open>url\<close> is a string that
  parses to a bucket and a key leads to exactly one call of the delegate, when the line
  with the bucket and the key is printed.
\<close>

lemma post_parsed_dict:
  assumes "map_of kvs ''url'' = Some (JStr u)"
      and "parse_s3_url lib u = Inr (bucket, key)"
      and "print_error lib [JStr bucket, JStr key, get_default kvs ''expires_in'' (JInt 3600)] = None"
  shows "post_parsed lib request_version (JObj kvs) =
    (let expires_in = get_default kvs ''expires_in'' (JInt 3600) in
     case presign lib bucket key expires_in of
       Inl e \<Rightarrow>
         handle_exception lib request_version (ok_headers request_version)
           [(bucket, key, expires_in)] (wrap_exception e)
     | Inr presigned_url \<Rightarrow>
         \<lparr>wire = ok_headers request_version @
            [Body (success_document lib (JStr u) presigned_url expires_in)],
          sign_calls = [(bucket, key, expires_in)], blocked = False\<rparr>)"
proof -
  have k: "''url'' \<in> fst ` set kvs"
    using assms(1) by (metis domI dom_map_of_conv_image_fst)
  show ?thesis
    using assms k
    by (simp add: post_parsed_def generate_for_json_def generate_presigned_url_from_s3_url_def
        Let_def split: sum.splits)
qed

text \<open>
  Claim C5. A POST request with a JSON object body that has a \<open>url\<close> field: without an
  \<open>expires_in\<close> field the signing delegate is called with expiration 3600 and the
  success response holds \<open>expires_in: 3600\<close>; with \<open>expires_in\<close> an integer \<open>m\<close> the
  delegate is called with \<open>m\<close> and the success response echoes \<open>m\<close>. The body is the
  text of the bytes read for the \<^verbatim>\<open>Content-Length\<close> header. The delegate is reached
  when the URL parses to a bucket and a key and standard output prints the two lines of
  the log that hold the parsed body and the bucket, key and expiration; the success
  response is written when the delegate returns a signed URL.
\<close>

theorem do_POST_expiration:
  assumes "headers ''Content-Length'' = Some v"
      and "py_int lib v = Inr n"
      and "rfile_read lib rfile n = Inr (Some raw)"
      and "utf8_valid lib raw"
      and "json_loads lib (utf8_text lib raw) = Inr (JObj kvs)"
      and "print_error lib [JObj kvs] = None"
      and "map_of kvs ''url'' = Some (JStr u)"
      and "parse_s3_url lib u = Inr (bucket, key)"
      and "\<forall>expires_in. print_error lib [JStr bucket, JStr key, expires_in] = None"
  shows "(map_of kvs ''expires_in'' = None \<longrightarrow>
            sign_calls (do_POST lib request_version headers rfile) = [(bucket, key, JInt 3600)]
            \<and> (\<forall>signed. presign lib bucket key (JInt 3600) = Inr signed \<longrightarrow>
                  wire (do_POST lib request_version headers rfile) =
                    ok_headers request_version @
                    [Body (JObj [(''original_url'', JStr u),
                                 (''presigned_url'', JStr signed),
                                 (''expires_in'', JInt 3600),
                                 (''status'', JStr ''success''),
                                 (''processing_time_ms'', JFloat (elapsed_ms lib))])]))
       \<and> (\<forall>m. map_of kvs ''expires_in'' = Some (JInt m) \<longrightarrow>
            sign_calls (do_POST lib request_version headers rfile) = [(bucket, key, JInt m)]
            \<and> (\<forall>signed. presign lib bucket key (JInt m) = Inr signed \<longrightarrow>
                  wire (do_POST lib request_version headers rfile) =
                    ok_headers request_version @
                    [Body (JObj [(''original_url'', JStr u),
                                 (''presigned_url'', JStr signed),
                                 (''expires_in'', JInt m),
                                 (''status'', JStr ''success''),
                                 (''processing_time_ms'', JFloat (elapsed_ms lib))])]))"
proof -
  have post: "do_POST lib request_version headers rfile =
      post_parsed lib request_version (JObj kvs)"
    using assms(1-6) by (simp add: do_POST_def utf8_decode_def)
  from assms(9)
  have "print_error lib [JStr bucket, JStr key, get_default kvs ''expires_in'' (JInt 3600)] = None"
    by simp
  note parsed = post_parsed_dict [OF assms(7,8) this]
  show ?thesis
    unfolding post parsed
    by (auto simp: Let_def get_default_def handle_exception_def success_document_def
        split: sum.splits)
qed

theorem do_POST_expiration_witness:
  "(let lib = test_library [] (Inr 2)
        (Inr (JObj [(''url'', JStr ''https://mybucket.s3.amazonaws.com/path/file.txt'')]))
        (Inr ''https://signed.example/path/file.txt'');
        out = do_POST lib ''HTTP/1.1'' [''Content-Length'' \<mapsto> ''2'']
                \<lparr>bytes_sent = ''{}'', closed = False\<rparr>
    in sign_calls out = [(''mybucket'', ''path/file.txt'', JInt 3600)]
       \<and> response_body (wire out) =
           [Body (JObj [(''original_url'', JStr ''https://mybucket.s3.amazonaws.com/path/file.txt''),
                        (''presigned_url'', JStr ''https://signed.example/path/file.txt''),
                        (''expires_in'', JInt 3600),
                        (''status'', JStr ''success''),
                        (''processing_time_ms'', JFloat 0)])])
   \<and> (let lib = test_library [] (Inr 2)
        (Inr (JObj [(''url'', JStr ''https://mybucket.s3.amazonaws.com/file.txt''),
                    (''expires_in'', JInt 120)]))
        (Inr ''https://signed.example/file.txt'');
        out = do_POST lib ''HTTP/1.1'' [''Content-Length'' \<mapsto> ''2'']
                \<lparr>bytes_sent = ''{}'', closed = False\<rparr>
    in sign_calls out = [(''mybucket'', ''file.txt'', JInt 120)]
       \<and> response_body (wire out) =
           [Body (JObj [(''original_url'', JStr ''https://mybucket.s3.amazonaws.com/file.txt''),
                        (''presigned_url'', JStr ''https://signed.example/file.txt''),
                        (''expires_in'', JInt 120),
                        (''status'', JStr ''success''),
                        (''processing_time_ms'', JFloat 0)])])"
proof -
  let ?h = "[''Content-Length'' \<mapsto> ''2'']"
  let ?kvs1 = "[(''url'', JStr ''https://mybucket.s3.amazonaws.com/path/file.txt'')]"
  let ?kvs2 = "[(''url'', JStr ''https://mybucket.s3.amazonaws.com/file.txt''),
                (''expires_in'', JInt 120)]"
  let ?lib1 = "test_library [] (Inr 2) (Inr (JObj ?kvs1)) (Inr ''https://signed.example/path/file.txt'')"
  let ?lib2 = "test_library [] (Inr 2) (Inr (JObj ?kvs2)) (Inr ''https://signed.example/file.txt'')"
  have h: "?h ''Content-Length'' = Some ''2''" by simp
  have p1: "parse_s3_url ?lib1 ''https://mybucket.s3.amazonaws.com/path/file.txt'' =
      Inr (''mybucket'', ''path/file.txt'')"
    by code_simp
  have p2: "parse_s3_url ?lib2 ''https://mybucket.s3.amazonaws.com/file.txt'' =
      Inr (''mybucket'', ''file.txt'')"
    by code_simp
  let ?body = "\<lparr>bytes_sent = ''{}'', closed = False\<rparr>"
  have r1: "rfile_read ?lib1 ?body 2 = Inr (Some ''{}'')"
    and r2: "rfile_read ?lib2 ?body 2 = Inr (Some ''{}'')"
    by (simp_all add: rfile_read_def test_library_def)
  have v: "list_all ascii_byte ''{}''"
    by (simp add: ascii_byte_def)
  have a: "sign_calls (do_POST ?lib1 ''HTTP/1.1'' ?h ?body) =
        [(''mybucket'', ''path/file.txt'', JInt 3600)]
      \<and> response_body (wire (do_POST ?lib1 ''HTTP/1.1'' ?h ?body)) =
           [Body (JObj [(''original_url'', JStr ''https://mybucket.s3.amazonaws.com/path/file.txt''),
                        (''presigned_url'', JStr ''https://signed.example/path/file.txt''),
                        (''expires_in'', JInt 3600),
                        (''status'', JStr ''success''),
                        (''processing_time_ms'', JFloat 0)])]"
    using do_POST_expiration
      [where headers = ?h and lib = ?lib1 and rfile = ?body and v = "''2''" and n = 2
         and kvs = ?kvs1 and u = "''https://mybucket.s3.amazonaws.com/path/file.txt''"
         and request_version = "''HTTP/1.1''",
        OF h _ r1 _ _ _ _ p1] v
    by (simp add: test_library_def ok_headers_later)
  have b: "sign_calls (do_POST ?lib2 ''HTTP/1.1'' ?h ?body) =
        [(''mybucket'', ''file.txt'', JInt 120)]
      \<and> response_body (wire (do_POST ?lib2 ''HTTP/1.1'' ?h ?body)) =
           [Body (JObj [(''original_url'', JStr ''https://mybucket.s3.amazonaws.com/file.txt''),
                        (''presigned_url'', JStr ''https://signed.example/file.txt''),
                        (''expires_in'', JInt 120),
                        (''status'', JStr ''success''),
                        (''processing_time_ms'', JFloat 0)])]"
    using do_POST_expiration
      [where headers = ?h and lib = ?lib2 and rfile = ?body and v = "''2''" and n = 2
         and kvs = ?kvs2 and u = "''https://mybucket.s3.amazonaws.com/file.txt''"
         and request_version = "''HTTP/1.1''",
        OF h _ r2 _ _ _ _ p2] v
    by (simp add: test_library_def ok_headers_later)
  from a b show ?thesis by (simp only: Let_def)
qed

subsection \<open>CORS headers\<close>

text \<open>
  For a request of a version other than HTTP/0.9 a handler writes one of four shapes:
  the 200 header block and a document; the 200 header block, a 500 header block and the
  error document; when the request path of a GET does not parse, the 500 header block
  and the error document alone; and the 200 header block alone, when a POST waits for
  bytes of the body that never come.
\<close>

lemma cors_blocks_waiting:
  "request_version \<noteq> ''HTTP/0.9'' \<Longrightarrow> cors_blocks (ok_headers request_version)"
  by (simp add: cors_blocks_def ok_headers_later)

lemma cors_blocks_ok:
  "request_version \<noteq> ''HTTP/0.9'' \<Longrightarrow> cors_blocks (ok_headers request_version @ [Body d])"
  by (simp add: cors_blocks_def ok_headers_later)

lemma cors_blocks_exception_late:
  "request_version \<noteq> ''HTTP/0.9'' \<Longrightarrow>
   cors_blocks (wire (handle_exception lib request_version (ok_headers request_version) calls e))"
  by (simp add: cors_blocks_def handle_exception_def ok_headers_later error_headers_later)

lemma cors_blocks_exception_early:
  "request_version \<noteq> ''HTTP/0.9'' \<Longrightarrow>
   cors_blocks (wire (handle_exception lib request_version [] calls e))"
  by (simp add: cors_blocks_def handle_exception_def error_headers_later)

lemma cors_blocks_do_GET:
  "request_version \<noteq> ''HTTP/0.9'' \<Longrightarrow> cors_blocks (wire (do_GET lib request_version request_path))"
  by (simp add: do_GET_def Let_def cors_blocks_ok cors_blocks_exception_late
      cors_blocks_exception_early split: sum.splits option.splits list.splits prod.splits)

lemma cors_blocks_post_parsed:
  "request_version \<noteq> ''HTTP/0.9'' \<Longrightarrow>
   cors_blocks (wire (post_parsed lib request_version request_data))"
  by (simp add: post_parsed_def Let_def cors_blocks_ok cors_blocks_exception_late
      split: sum.splits bool.splits prod.splits)

lemma cors_blocks_do_POST:
  "request_version \<noteq> ''HTTP/0.9'' \<Longrightarrow>
   cors_blocks (wire (do_POST lib request_version headers rfile))"
  by (simp add: do_POST_def Let_def cors_blocks_ok cors_blocks_exception_late
      cors_blocks_post_parsed cors_blocks_waiting
      split: sum.splits option.splits py_exception.splits)

text \<open>
  Claim C8, as amended. For a request of a version other than HTTP/0.9, every response
  that \<^verbatim>\<open>do_OPTIONS\<close>, \<^verbatim>\<open>do_GET\<close> or \<^verbatim>\<open>do_POST\<close> writes has the header \<^verbatim>\<open>Access-Control-Allow-Origin: *\<close>: the preflight
  response, which also declares the methods \<open>GET, POST, OPTIONS\<close> and the header
  \<open>Content-Type\<close>, and every header block that \<^verbatim>\<open>do_GET\<close> and \<^verbatim>\<open>do_POST\<close> write, on
  success and on error. As the claim is stated it fails: for a request of version
  HTTP/0.9 the base class writes neither status line nor header, so the response is the
  bare document (nothing at all for \<^verbatim>\<open>OPTIONS\<close>).
\<close>

theorem cors_on_every_response:
  assumes "request_version \<noteq> ''HTTP/0.9''"
  shows "header_blocks (do_OPTIONS request_version) =
     [(200, [(''Access-Control-Allow-Origin'', ''*''),
             (''Access-Control-Allow-Methods'', ''GET, POST, OPTIONS''),
             (''Access-Control-Allow-Headers'', ''Content-Type'')])]
   \<and> header_blocks (wire (do_GET lib request_version request_path)) \<noteq> []
   \<and> (\<forall>b \<in> set (header_blocks (wire (do_GET lib request_version request_path))).
         (''Access-Control-Allow-Origin'', ''*'') \<in> set (snd b))
   \<and> header_blocks (wire (do_POST lib request_version headers rfile)) \<noteq> []
   \<and> (\<forall>b \<in> set (header_blocks (wire (do_POST lib request_version headers rfile))).
         (''Access-Control-Allow-Origin'', ''*'') \<in> set (snd b))"
proof -
  have opt: "header_blocks (do_OPTIONS request_version) =
     [(200, [(''Access-Control-Allow-Origin'', ''*''),
             (''Access-Control-Allow-Methods'', ''GET, POST, OPTIONS''),
             (''Access-Control-Allow-Headers'', ''Content-Type'')])]"
    using assms by (simp add: do_OPTIONS_def send_response_def send_header_def end_headers_def)
  from opt cors_blocks_do_GET [OF assms, of lib request_path]
    cors_blocks_do_POST [OF assms, of lib headers rfile]
  show ?thesis
    by (simp add: cors_blocks_def list_all_iff)
qed

theorem cors_on_every_response_witness:
  "''HTTP/1.1'' \<noteq> ''HTTP/0.9''
   \<and> header_blocks (do_OPTIONS ''HTTP/1.1'') =
     [(200, [(''Access-Control-Allow-Origin'', ''*''),
             (''Access-Control-Allow-Methods'', ''GET, POST, OPTIONS''),
             (''Access-Control-Allow-Headers'', ''Content-Type'')])]
   \<and> header_blocks (wire (do_GET (test_library [(''url'', [''https://example.com/file.txt''])]
          (Inr 0) (Inl MemoryError) (Inl NoCredentialsError))
          ''HTTP/1.1'' ''/?url=https://example.com/file.txt'')) =
       [(200, [(''Content-Type'', ''application/json''), (''Access-Control-Allow-Origin'', ''*'')]),
        (500, [(''Content-Type'', ''application/json''), (''Access-Control-Allow-Origin'', ''*'')])]
   \<and> header_blocks (wire (do_POST (test_library [] (Inr 8)
          (Inl (JSONDecodeError ''Expecting value'')) (Inl NoCredentialsError))
          ''HTTP/1.1'' [''Content-Length'' \<mapsto> ''8'']
          \<lparr>bytes_sent = ''not json'', closed = False\<rparr>)) =
       [(200, [(''Content-Type'', ''application/json''), (''Access-Control-Allow-Origin'', ''*'')])]"
proof -
  let ?g = "test_library [(''url'', [''https://example.com/file.txt''])] (Inr 0) (Inl MemoryError)
      (Inl NoCredentialsError)"
  let ?p = "test_library [] (Inr 8) (Inl (JSONDecodeError ''Expecting value''))
      (Inl NoCredentialsError)"
  have v: "''HTTP/1.1'' \<noteq> ''HTTP/0.9''" by simp
  have u: "urlparse ?g ''/?url=https://example.com/file.txt'' =
      Inr \<lparr>scheme = [], netloc = [], path = ''/'', params = [],
           query = ''url=https://example.com/file.txt'', fragment = []\<rparr>"
    by code_simp
  have s: "parse_s3_url ?g ''https://example.com/file.txt'' =
      Inl (ValueError ''Unrecognized S3 URL format: https://example.com/file.txt'')"
    by code_simp
  have q: "parse_qs ?g ''url=https://example.com/file.txt'' =
      [(''url'', [''https://example.com/file.txt''])]"
    by (simp add: test_library_def)
  have g: "header_blocks (wire (do_GET ?g ''HTTP/1.1'' ''/?url=https://example.com/file.txt'')) =
       [(200, [(''Content-Type'', ''application/json''), (''Access-Control-Allow-Origin'', ''*'')]),
        (500, [(''Content-Type'', ''application/json''), (''Access-Control-Allow-Origin'', ''*'')])]"
    by (simp add: do_GET_def u s q generate_presigned_url_from_s3_url_def
        handle_exception_def ok_headers_later error_headers_later)
  have p: "header_blocks (wire (do_POST ?p ''HTTP/1.1'' [''Content-Length'' \<mapsto> ''8'']
        \<lparr>bytes_sent = ''not json'', closed = False\<rparr>)) =
       [(200, [(''Content-Type'', ''application/json''), (''Access-Control-Allow-Origin'', ''*'')])]"
    by (simp add: do_POST_def test_library_def utf8_decode_def rfile_read_def ascii_byte_def
        ok_headers_later)
  from cors_on_every_response
    [where lib = ?p and headers = "[''Content-Length'' \<mapsto> ''8'']"
       and rfile = "\<lparr>bytes_sent = ''not json'', closed = False\<rparr>", OF v]
    g p
  show ?thesis by simp
qed

theorem cors_on_every_response_counterexample:
  "wire (do_GET (test_library [] (Inl []) (Inl MemoryError) (Inl NoCredentialsError))
           ''HTTP/0.9'' ''/'') =
     [Body (JObj [(''error'', JStr ''Missing url parameter''),
                  (''usage'', JStr ''GET /?url=https://fleetdata-production.s3.amazonaws.com/...'')])]
   \<and> header_blocks
       (wire (do_GET (test_library [] (Inl []) (Inl MemoryError) (Inl NoCredentialsError))
                ''HTTP/0.9'' ''/'')) = []
   \<and> do_OPTIONS ''HTTP/0.9'' = []"
proof -
  let ?lib = "test_library [] (Inl []) (Inl MemoryError) (Inl NoCredentialsError)"
  have p: "urlparse ?lib ''/'' =
      Inr \<lparr>scheme = [], netloc = [], path = ''/'', params = [], query = [], fragment = []\<rparr>"
    by code_simp
  have q: "parse_qs ?lib [] = []" by (simp add: test_library_def)
  show ?thesis
    by (simp add: do_GET_def p q headers_09 missing_url_parameter_def do_OPTIONS_def
        send_response_def send_header_def end_headers_def)
qed

subsection \<open>The status of an error response\<close>

text \<open>
  Both handlers write the 200 header block before they process the request. When the
  processing then raises, the \<^verbatim>\<open>except\<close> branch calls \<^verbatim>\<open>send_response(500)\<close>, but
  the status line of the response is already on the wire: the client reads status 200,
  and the second status line and its headers arrive as the beginning of the body.
\<close>

lemma late_exception_status:
  assumes "request_version \<noteq> ''HTTP/0.9''"
  shows "response_status
           (wire (handle_exception lib request_version (ok_headers request_version) calls e)) =
           Some 200
   \<and> response_body
       (wire (handle_exception lib request_version (ok_headers request_version) calls e)) =
       [StatusLine 500,
        HeaderLine ''Content-Type'' ''application/json'',
        HeaderLine ''Access-Control-Allow-Origin'' ''*'',
        EndHeaders,
        Body (error_document lib e)]"
  using assms by (simp add: handle_exception_def ok_headers_later error_headers_later)

text \<open>Only a GET whose request path does not parse is answered with status 500.\<close>

lemma early_exception_status:
  "request_version \<noteq> ''HTTP/0.9'' \<Longrightarrow> urlparse lib request_path = Inl e \<Longrightarrow>
   response_status (wire (do_GET lib request_version request_path)) = Some 500
   \<and> response_body (wire (do_GET lib request_version request_path)) =
       [Body (error_document lib e)]"
  by (simp add: do_GET_def handle_exception_def error_headers_later)

text \<open>
  Claim C2. A request on which processing fails (URL parse error, signing error,
  credential error) should get HTTP status 500 with the JSON body
  \<open>{error, status: "error", processing_time_ms}\<close>. For the request
  \<^verbatim>\<open>GET /?url=https://example.com/file.txt HTTP/1.1\<close>, whose URL is not an S3 URL, the
  handler writes the 200 header block, then a 500 header block, then the document: the
  status the client reads is 200, and the body begins with the second status line.
\<close>

theorem failed_GET_status_200:
  "response_status
     (wire (do_GET (test_library [(''url'', [''https://example.com/file.txt''])]
                      (Inr 0) (Inl MemoryError) (Inl NoCredentialsError))
              ''HTTP/1.1'' ''/?url=https://example.com/file.txt'')) = Some 200
   \<and> response_body
     (wire (do_GET (test_library [(''url'', [''https://example.com/file.txt''])]
                      (Inr 0) (Inl MemoryError) (Inl NoCredentialsError))
              ''HTTP/1.1'' ''/?url=https://example.com/file.txt'')) =
       [StatusLine 500,
        HeaderLine ''Content-Type'' ''application/json'',
        HeaderLine ''Access-Control-Allow-Origin'' ''*'',
        EndHeaders,
        Body (JObj [(''error'', JStr ''Error generating presigned URL: Unrecognized S3 URL format: https://example.com/file.txt''),
                    (''status'', JStr ''error''),
                    (''processing_time_ms'', JFloat 0)])]"
proof -
  let ?lib = "test_library [(''url'', [''https://example.com/file.txt''])]
      (Inr 0) (Inl MemoryError) (Inl NoCredentialsError)"
  have u: "urlparse ?lib ''/?url=https://example.com/file.txt'' =
      Inr \<lparr>scheme = [], netloc = [], path = ''/'', params = [],
           query = ''url=https://example.com/file.txt'', fragment = []\<rparr>"
    by code_simp
  have s: "parse_s3_url ?lib ''https://example.com/file.txt'' =
      Inl (ValueError ''Unrecognized S3 URL format: https://example.com/file.txt'')"
    by code_simp
  have q: "parse_qs ?lib ''url=https://example.com/file.txt'' =
      [(''url'', [''https://example.com/file.txt''])]"
    and e: "elapsed_ms ?lib = 0"
    by (simp_all add: test_library_def)
  show ?thesis
    by (simp add: do_GET_def u s q e generate_presigned_url_from_s3_url_def
        handle_exception_def error_document_def ok_headers_later error_headers_later)
qed

section \<open>Properties of the URL parser\<close>

subsection \<open>What \<^verbatim>\<open>urlparse\<close> and the string operations do on an \<open>https\<close> URL\<close>

lemma takeWhile_stop: "\<not> P d \<Longrightarrow> takeWhile P (xs @ d # ys) = takeWhile P xs"
  by (induction xs) auto

lemma last_segment_after_slash: "last_segment (xs @ CHR ''/'' # ys) = last_segment ys"
  by (simp add: last_segment_def takeWhile_stop)

lemma last_segment_no_slash: "CHR ''/'' \<notin> set s \<Longrightarrow> last_segment s = s"
proof -
  assume "CHR ''/'' \<notin> set s"
  then have "\<forall>c\<in>set (rev s). c \<noteq> CHR ''/''" by auto
  then have "takeWhile (\<lambda>c. c \<noteq> CHR ''/'') (rev s) = rev s"
    by (simp only: takeWhile_eq_all_conv)
  then show ?thesis by (simp only: last_segment_def rev_rev_ident)
qed

lemma splitparams_none: "CHR '';'' \<notin> set (last_segment s) \<Longrightarrow> splitparams s = (s, [])"
  by (simp add: splitparams_def)

lemma split_at_char_none: "d \<notin> set s \<Longrightarrow> split_at_char d s = (s, [])"
  by (simp add: split_at_char_def)

lemma splitnetloc_host:
  assumes "\<forall>c\<in>set host. \<not> netloc_delim c"
  shows "splitnetloc (CHR ''/'' # CHR ''/'' # host @ CHR ''/'' # rest) = (host, CHR ''/'' # rest)"
proof -
  have d: "netloc_delim CHR ''/''" by (simp add: netloc_delim_def)
  have t: "takeWhile (\<lambda>c. \<not> netloc_delim c) (host @ CHR ''/'' # rest) = host"
    using assms d by (simp add: takeWhile_append2)
  have r: "dropWhile (\<lambda>c. \<not> netloc_delim c) (host @ CHR ''/'' # rest) = CHR ''/'' # rest"
    using assms d by (simp add: dropWhile_append2)
  show ?thesis by (simp add: splitnetloc_def t r)
qed

lemma split_scheme_https: "split_scheme (''https:'' @ rest) = (''https'', rest)"
  by (simp add: split_scheme_def ascii_letters_def scheme_chars_def ascii_lower_def)

lemma https_in_uses_params: "''https'' \<in> set uses_params"
  by (simp add: uses_params_def)

lemma check_netloc_host_text: "host_text host \<Longrightarrow> check_netloc lib host = None"
  by (auto simp: check_netloc_def host_text_def list_all_iff)

text \<open>The parse of \<open>https://host/rest\<close>, whatever parameters the last segment has.\<close>

lemma urlparse_https_params:
  assumes host: "host_text host" and rest: "path_chars rest"
  shows "urlparse lib (''https://'' @ host @ CHR ''/'' # rest) =
           Inr \<lparr>scheme = ''https'', netloc = host,
                path = fst (splitparams (CHR ''/'' # rest)),
                params = snd (splitparams (CHR ''/'' # rest)),
                query = [], fragment = []\<rparr>"
proof -
  let ?tail = "CHR ''/'' # CHR ''/'' # host @ CHR ''/'' # rest"
  let ?url = "''https://'' @ host @ CHR ''/'' # rest"
  have hostc: "\<forall>c\<in>set host. \<not> netloc_delim c \<and> \<not> unsafe_url_byte c"
    using host by (simp add: host_text_def list_all_iff)
  have restc: "\<forall>c\<in>set rest. c \<noteq> CHR ''?'' \<and> c \<noteq> CHR ''#'' \<and> \<not> unsafe_url_byte c"
    using rest by (simp add: path_chars_def list_all_iff)
  have strip: "dropWhile c0_control_or_space ?url = ?url"
    by (simp add: c0_control_or_space_def)
  have keep: "filter (\<lambda>c. \<not> unsafe_url_byte c) ?url = ?url"
    using hostc restc by (simp add: unsafe_url_byte_def filter_id_conv)
  have sch: "split_scheme ?url = (''https'', ?tail)"
    using split_scheme_https [of ?tail] by simp
  have nl: "splitnetloc ?tail = (host, CHR ''/'' # rest)"
    using hostc by (intro splitnetloc_host) blast
  have frag: "split_at_char CHR ''#'' (CHR ''/'' # rest) = (CHR ''/'' # rest, [])"
    using restc by (intro split_at_char_none) auto
  have qry: "split_at_char CHR ''?'' (CHR ''/'' # rest) = (CHR ''/'' # rest, [])"
    using restc by (intro split_at_char_none) auto
  have chk: "check_netloc lib host = None"
    using host by (rule check_netloc_host_text)
  show ?thesis
    unfolding urlparse_def strip keep
    by (simp only: Let_def sch nl frag qry chk https_in_uses_params prod.case option.case
        simp_thms if_True if_False case_prod_beta fst_conv snd_conv)
qed

lemma urlparse_https:
  assumes "host_text host" and "path_text rest"
  shows "urlparse lib (''https://'' @ host @ CHR ''/'' # rest) =
           Inr \<lparr>scheme = ''https'', netloc = host, path = CHR ''/'' # rest, params = [],
                query = [], fragment = []\<rparr>"
proof -
  have "CHR '';'' \<notin> set (last_segment (CHR ''/'' # rest))"
    using assms(2) last_segment_after_slash [of "[]" rest] by (simp add: path_text_def)
  then have "splitparams (CHR ''/'' # rest) = (CHR ''/'' # rest, [])"
    by (rule splitparams_none)
  with urlparse_https_params [of host rest lib] assms show ?thesis
    by (simp add: path_text_def)
qed

lemma str_contains_here: "str_contains sub (sub @ ys)"
proof (cases "sub @ ys")
  case Nil
  then show ?thesis by simp
next
  case (Cons c cs)
  have "prefix sub (sub @ ys)" by simp
  then show ?thesis unfolding Cons by simp
qed

lemma str_contains_append: "str_contains sub (xs @ sub @ ys)"
  by (induction xs) (auto simp: str_contains_here)

text \<open>
  No proper suffix of \<open>.s3.amazonaws.com\<close> is a prefix of it, so its first occurrence
  in \<open>bucket.s3.amazonaws.com\<close> cannot straddle the end of the bucket.
\<close>

lemma s3_suffix_borders: "list_all (\<lambda>k. \<not> prefix (drop k s3_suffix) s3_suffix) [1..<17]"
  by code_simp

lemma s3_suffix_unbordered:
  assumes "b \<noteq> []" and "\<not> prefix s3_suffix b"
  shows "\<not> prefix s3_suffix (b @ s3_suffix)"
proof
  assume "prefix s3_suffix (b @ s3_suffix)"
  with assms(2) obtain us where us: "s3_suffix = b @ us" "prefix us s3_suffix"
    by (auto simp: prefix_append)
  have len: "length s3_suffix = 17" by (simp add: s3_suffix_def)
  have "us \<noteq> []" using us(1) assms(2) by auto
  with us(1) len assms(1) have k: "length b \<in> set [1..<17]"
    by (metis One_nat_def Suc_leI atLeastLessThan_iff length_append length_greater_0_conv
        less_add_same_cancel1 set_upt)
  have "us = drop (length b) s3_suffix" using us(1) by (metis append_eq_conv_conj)
  with us(2) k s3_suffix_borders show False
    by (auto simp: list_all_iff)
qed

lemma split_head_bucket:
  "\<not> str_contains s3_suffix b \<Longrightarrow> split_head s3_suffix (b @ s3_suffix) = b"
proof (induction b)
  case Nil
  then show ?case by (simp add: s3_suffix_def)
next
  case (Cons c cs)
  then have "\<not> prefix s3_suffix (c # cs)" and rest: "\<not> str_contains s3_suffix cs"
    by auto
  then have "\<not> prefix s3_suffix ((c # cs) @ s3_suffix)"
    by (intro s3_suffix_unbordered) auto
  with Cons.IH rest show ?case by simp
qed

lemma lstrip_slash_id: "hd s \<noteq> CHR ''/'' \<or> s = [] \<Longrightarrow> lstrip_slash s = s"
  by (cases s) (auto simp: lstrip_slash_def)

lemma lstrip_slash_Cons: "lstrip_slash (CHR ''/'' # s) = lstrip_slash s"
  by (simp add: lstrip_slash_def)

lemma split_slash_once_pair:
  assumes "CHR ''/'' \<notin> set bucket"
  shows "split_slash_once (bucket @ CHR ''/'' # key) = [bucket, key]"
proof -
  have all: "\<forall>c\<in>set bucket. c \<noteq> CHR ''/''" using assms by auto
  have t: "takeWhile (\<lambda>c. c \<noteq> CHR ''/'') (bucket @ CHR ''/'' # key) = bucket"
    using all by (simp add: takeWhile_append2)
  have d: "dropWhile (\<lambda>c. c \<noteq> CHR ''/'') (bucket @ CHR ''/'' # key) = CHR ''/'' # key"
    using all by (simp add: dropWhile_append2)
  show ?thesis by (simp add: split_slash_once_def t d)
qed

lemma host_text_s3_suffix: "host_text s3_suffix"
  by code_simp

lemma host_text_s3_endpoint: "host_text s3_endpoint"
  by code_simp

lemma host_text_append: "host_text a \<Longrightarrow> host_text b \<Longrightarrow> host_text (a @ b)"
  by (simp add: host_text_def)

lemma endpoint_has_no_suffix: "\<not> str_contains s3_suffix s3_endpoint"
  by code_simp

lemma host_text_no_slash: "host_text b \<Longrightarrow> CHR ''/'' \<notin> set b"
  by (auto simp: host_text_def list_all_iff netloc_delim_def)

lemma host_text_path_chars: "host_text b \<Longrightarrow> path_chars b"
  by (auto simp: host_text_def path_chars_def list_all_iff netloc_delim_def)

lemma splitparams_single_segment:
  assumes "CHR ''/'' \<notin> set b"
  shows "\<exists>b'. fst (splitparams (CHR ''/'' # b)) = CHR ''/'' # b' \<and> CHR ''/'' \<notin> set b'"
proof (cases "CHR '';'' \<in> set b")
  case False
  then have "splitparams (CHR ''/'' # b) = (CHR ''/'' # b, [])"
    using last_segment_after_slash [of "[]" b] last_segment_no_slash [OF assms]
    by (intro splitparams_none) simp
  with assms show ?thesis by simp
next
  case True
  have seg: "last_segment (CHR ''/'' # b) = b"
    using last_segment_after_slash [of "[]" b] last_segment_no_slash [OF assms] by simp
  have "fst (splitparams (CHR ''/'' # b)) = CHR ''/'' # takeWhile (\<lambda>c. c \<noteq> CHR '';'') b"
    using True by (simp add: splitparams_def seg)
  moreover have "CHR ''/'' \<notin> set (takeWhile (\<lambda>c. c \<noteq> CHR '';'') b)"
    using assms by (auto dest: set_takeWhileD)
  ultimately show ?thesis by blast
qed

lemma extract_bucket_only:
  assumes "netloc p = s3_endpoint" and "path p = CHR ''/'' # b" and "CHR ''/'' \<notin> set b"
  shows "extract_bucket_key url p =
           Inl (ValueError (''Could not extract bucket and key from URL: '' @ url))"
proof -
  have "lstrip_slash (CHR ''/'' # b) = b"
    using assms(3) by (cases b) (auto simp: lstrip_slash_def)
  moreover have "split_slash_once b = [b]"
    using assms(3) by (simp add: split_slash_once_def)
  ultimately show ?thesis
    using assms(1,2) endpoint_has_no_suffix by (simp add: extract_bucket_key_def)
qed

lemma extract_bucket_slash:
  assumes "netloc p = s3_endpoint" and "path p = CHR ''/'' # b @ ''/''" and "CHR ''/'' \<notin> set b"
  shows "extract_bucket_key url p =
           Inl (ValueError (''Could not extract bucket and key from URL: '' @ url))"
proof (cases b)
  case Nil
  then show ?thesis
    using assms(1,2) endpoint_has_no_suffix
    by (simp add: extract_bucket_key_def lstrip_slash_def split_slash_once_def)
next
  case (Cons c cs)
  then have "lstrip_slash (CHR ''/'' # b @ ''/'') = b @ ''/''"
    using assms(3) by (auto simp: lstrip_slash_def)
  moreover have "split_slash_once (b @ ''/'') = [b, []]"
    using split_slash_once_pair [OF assms(3), of "[]"] by simp
  ultimately show ?thesis
    using assms(1,2) endpoint_has_no_suffix by (simp add: extract_bucket_key_def)
qed

text \<open>The signing delegate is called exactly when the URL parses to a bucket and a key.\<close>

lemma generate_calls:
  "fst (generate_presigned_url_from_s3_url lib s3_url expires_in) =
     (case parse_s3_url lib s3_url of
        Inl e \<Rightarrow> []
      | Inr (bucket, key) \<Rightarrow>
          (case print_error lib [JStr bucket, JStr key, expires_in] of
             Some e \<Rightarrow> []
           | None \<Rightarrow> [(bucket, key, expires_in)]))"
  by (simp add: generate_presigned_url_from_s3_url_def
      split: sum.splits prod.splits option.splits)

lemma generate_parse_error:
  "parse_s3_url lib s3_url = Inl (ValueError m) \<Longrightarrow>
   generate_presigned_url_from_s3_url lib s3_url expires_in =
     ([], Inl (Exception (''Error generating presigned URL: '' @ m)))"
  by (simp add: generate_presigned_url_from_s3_url_def)

text \<open>
  A host that does not contain \<open>.s3.amazonaws.com\<close> and is not \<open>s3.amazonaws.com\<close> is
  refused, with the URL in the message.
\<close>

lemma unrecognized_host:
  assumes "urlparse lib s3_url = Inr parsed"
      and "\<not> str_contains s3_suffix (netloc parsed)"
      and "netloc parsed \<noteq> s3_endpoint"
  shows "parse_s3_url lib s3_url = Inl (ValueError (''Unrecognized S3 URL format: '' @ s3_url))"
  using assms by (simp add: parse_s3_url_def extract_bucket_key_def)

subsection \<open>Virtual-hosted-style URLs\<close>

text \<open>
  Where the code does return \<open>(bucket, key)\<close> for \<open>https://{bucket}.s3.amazonaws.com/{key}\<close>:
  the bucket is a non-empty host text that does not itself contain
  \<open>.s3.amazonaws.com\<close>, and the key is a non-empty path text without parameters that
  does not begin with a slash.
\<close>

lemma virtual_hosted_plain:
  assumes "bucket \<noteq> []" and "host_text bucket" and "\<not> str_contains s3_suffix bucket"
      and "key \<noteq> []" and "path_text key" and "hd key \<noteq> CHR ''/''"
  shows "parse_s3_url lib (''https://'' @ bucket @ s3_suffix @ ''/'' @ key) = Inr (bucket, key)"
proof -
  let ?url = "''https://'' @ bucket @ s3_suffix @ ''/'' @ key"
  have "urlparse lib (''https://'' @ (bucket @ s3_suffix) @ CHR ''/'' # key) =
      Inr \<lparr>scheme = ''https'', netloc = bucket @ s3_suffix, path = CHR ''/'' # key,
           params = [], query = [], fragment = []\<rparr>"
    using assms(2,5) by (intro urlparse_https host_text_append host_text_s3_suffix)
  then have p: "urlparse lib ?url =
      Inr \<lparr>scheme = ''https'', netloc = bucket @ s3_suffix, path = CHR ''/'' # key,
           params = [], query = [], fragment = []\<rparr>"
    by simp
  have c: "str_contains s3_suffix (bucket @ s3_suffix)"
    using str_contains_append [of s3_suffix bucket "[]"] by simp
  have b: "split_head s3_suffix (bucket @ s3_suffix) = bucket"
    using assms(3) by (rule split_head_bucket)
  have k: "lstrip_slash (CHR ''/'' # key) = key"
    using assms(6) by (simp add: lstrip_slash_Cons lstrip_slash_id)
  show ?thesis
    unfolding parse_s3_url_def p
    using assms(1,4) by (simp add: extract_bucket_key_def c b k)
qed

text \<open>
  Claim C3. For a virtual-hosted-style URL \<open>https://{bucket}.s3.amazonaws.com/{key}\<close>
  the parser should return exactly \<open>(bucket, key)\<close>, the key being the path with a
  leading slash stripped and not altered otherwise. The code alters the key:
  \<^verbatim>\<open>lstrip('/')\<close> removes every leading slash, so the key \<open>/k\<close> of
  \<open>https://b.s3.amazonaws.com//k\<close> comes out as \<open>k\<close>, where the path-style branch
  keeps it (\<open>https://s3.amazonaws.com/b//k\<close> gives \<open>/k\<close>); \<^verbatim>\<open>urlparse\<close> moves what
  follows a \<open>;\<close> in the last segment into \<open>params\<close>, which the code never reads, so the
  key \<open>a;b\<close> comes out as \<open>a\<close>; and \<^verbatim>\<open>split('.s3.amazonaws.com')[0]\<close> stops at the
  first occurrence of the suffix, so the bucket \<open>a.s3.amazonaws.com\<close> comes out as \<open>a\<close>.
\<close>

theorem virtual_hosted_key_altered:
  "urlparse lib ''https://b.s3.amazonaws.com//k'' =
     Inr \<lparr>scheme = ''https'', netloc = ''b.s3.amazonaws.com'', path = ''//k'', params = [],
          query = [], fragment = []\<rparr>
   \<and> parse_s3_url lib ''https://b.s3.amazonaws.com//k'' = Inr (''b'', ''k'')
   \<and> parse_s3_url lib ''https://s3.amazonaws.com/b//k'' = Inr (''b'', ''/k'')
   \<and> urlparse lib ''https://b.s3.amazonaws.com/a;b'' =
       Inr \<lparr>scheme = ''https'', netloc = ''b.s3.amazonaws.com'', path = ''/a'', params = ''b'',
            query = [], fragment = []\<rparr>
   \<and> parse_s3_url lib ''https://b.s3.amazonaws.com/a;b'' = Inr (''b'', ''a'')
   \<and> parse_s3_url lib ''https://a.s3.amazonaws.com.s3.amazonaws.com/k'' = Inr (''a'', ''k'')"
  by code_simp

subsection \<open>Path-style URLs\<close>

text \<open>
  Where the code does what is expected of a path-style URL: with the bucket a non-empty
  host text (so without a slash) and the key a non-empty path text without parameters,
  \<open>https://s3.amazonaws.com/{bucket}/{key}\<close> gives \<open>(bucket, key)\<close>; and a URL with the
  bucket only, \<open>https://s3.amazonaws.com/{bucket}\<close> or
  \<open>https://s3.amazonaws.com/{bucket}/\<close>, fails with the incomplete-reference error
  \<open>Could not extract bucket and key from URL\<close>.
\<close>

lemma path_style_plain:
  assumes "host_text bucket"
  shows "(bucket \<noteq> [] \<and> key \<noteq> [] \<and> path_text key \<longrightarrow>
           parse_s3_url lib (''https://'' @ s3_endpoint @ ''/'' @ bucket @ ''/'' @ key) =
             Inr (bucket, key))
       \<and> parse_s3_url lib (''https://'' @ s3_endpoint @ ''/'' @ bucket) =
           Inl (ValueError (''Could not extract bucket and key from URL: '' @
                  ''https://'' @ s3_endpoint @ ''/'' @ bucket))
       \<and> parse_s3_url lib (''https://'' @ s3_endpoint @ ''/'' @ bucket @ ''/'') =
           Inl (ValueError (''Could not extract bucket and key from URL: '' @
                  ''https://'' @ s3_endpoint @ ''/'' @ bucket @ ''/''))"
proof (intro conjI impI)
  have ns: "CHR ''/'' \<notin> set bucket" using assms by (rule host_text_no_slash)
  have pc: "path_chars bucket" using assms by (rule host_text_path_chars)
  {
    assume a: "bucket \<noteq> [] \<and> key \<noteq> [] \<and> path_text key"
    have pt: "path_text (bucket @ CHR ''/'' # key)"
      using a pc
      by (simp add: path_text_def path_chars_def last_segment_after_slash unsafe_url_byte_def)
    have "urlparse lib (''https://'' @ s3_endpoint @ CHR ''/'' # (bucket @ CHR ''/'' # key)) =
        Inr \<lparr>scheme = ''https'', netloc = s3_endpoint, path = CHR ''/'' # (bucket @ CHR ''/'' # key),
             params = [], query = [], fragment = []\<rparr>"
      using pt by (intro urlparse_https host_text_s3_endpoint)
    then have p: "urlparse lib (''https://'' @ s3_endpoint @ ''/'' @ bucket @ ''/'' @ key) =
        Inr \<lparr>scheme = ''https'', netloc = s3_endpoint, path = CHR ''/'' # (bucket @ CHR ''/'' # key),
             params = [], query = [], fragment = []\<rparr>"
      by simp
    have l: "lstrip_slash (CHR ''/'' # (bucket @ CHR ''/'' # key)) = bucket @ CHR ''/'' # key"
      using a ns by (cases bucket) (auto simp: lstrip_slash_def)
    show "parse_s3_url lib (''https://'' @ s3_endpoint @ ''/'' @ bucket @ ''/'' @ key) =
        Inr (bucket, key)"
      unfolding parse_s3_url_def p
      using a endpoint_has_no_suffix
      by (simp add: extract_bucket_key_def l split_slash_once_pair [OF ns])
  }
  {
    obtain b' where b': "fst (splitparams (CHR ''/'' # bucket)) = CHR ''/'' # b'"
        "CHR ''/'' \<notin> set b'"
      using splitparams_single_segment [OF ns] by blast
    have "urlparse lib (''https://'' @ s3_endpoint @ CHR ''/'' # bucket) =
        Inr \<lparr>scheme = ''https'', netloc = s3_endpoint,
             path = fst (splitparams (CHR ''/'' # bucket)),
             params = snd (splitparams (CHR ''/'' # bucket)), query = [], fragment = []\<rparr>"
      using pc by (intro urlparse_https_params host_text_s3_endpoint)
    then have p: "urlparse lib (''https://'' @ s3_endpoint @ ''/'' @ bucket) =
        Inr \<lparr>scheme = ''https'', netloc = s3_endpoint, path = CHR ''/'' # b',
             params = snd (splitparams (CHR ''/'' # bucket)), query = [], fragment = []\<rparr>"
      by (simp add: b')
    show "parse_s3_url lib (''https://'' @ s3_endpoint @ ''/'' @ bucket) =
        Inl (ValueError (''Could not extract bucket and key from URL: '' @
               ''https://'' @ s3_endpoint @ ''/'' @ bucket))"
      unfolding parse_s3_url_def p
      using extract_bucket_only [where b = b', OF _ _ b'(2)] by simp
  }
  {
    have pt: "path_text (bucket @ ''/'')"
      using pc last_segment_after_slash [of bucket "[]"]
      by (simp add: path_text_def path_chars_def last_segment_def unsafe_url_byte_def)
    have "urlparse lib (''https://'' @ s3_endpoint @ CHR ''/'' # (bucket @ ''/'')) =
        Inr \<lparr>scheme = ''https'', netloc = s3_endpoint, path = CHR ''/'' # (bucket @ ''/''),
             params = [], query = [], fragment = []\<rparr>"
      using pt by (intro urlparse_https host_text_s3_endpoint)
    then have p: "urlparse lib (''https://'' @ s3_endpoint @ ''/'' @ bucket @ ''/'') =
        Inr \<lparr>scheme = ''https'', netloc = s3_endpoint, path = CHR ''/'' # bucket @ ''/'',
             params = [], query = [], fragment = []\<rparr>"
      by simp
    show "parse_s3_url lib (''https://'' @ s3_endpoint @ ''/'' @ bucket @ ''/'') =
        Inl (ValueError (''Could not extract bucket and key from URL: '' @
               ''https://'' @ s3_endpoint @ ''/'' @ bucket @ ''/''))"
      unfolding parse_s3_url_def p
      using extract_bucket_slash [where b = bucket, OF _ _ ns] by simp
  }
qed

text \<open>
  Claim C4. For a path-style URL \<open>https://s3.amazonaws.com/{bucket}/{key}\<close> the parser
  should return \<open>(bucket, key)\<close>, the path split at its first slash. For the key \<open>a;b\<close>
  it does not: \<^verbatim>\<open>urlparse\<close> moves \<open>b\<close> into \<open>params\<close>, which the code never reads,
  and the parser returns the key \<open>a\<close>. A URL with the bucket only does fail with the
  incomplete-reference error.
\<close>

theorem path_style_params_dropped:
  "urlparse lib ''https://s3.amazonaws.com/mybucket/a;b'' =
     Inr \<lparr>scheme = ''https'', netloc = ''s3.amazonaws.com'', path = ''/mybucket/a'',
          params = ''b'', query = [], fragment = []\<rparr>
   \<and> parse_s3_url lib ''https://s3.amazonaws.com/mybucket/a;b'' = Inr (''mybucket'', ''a'')
   \<and> parse_s3_url lib ''https://s3.amazonaws.com/mybucket'' =
       Inl (ValueError
         ''Could not extract bucket and key from URL: https://s3.amazonaws.com/mybucket'')"
  by code_simp

subsection \<open>Hosts that are not S3 hosts\<close>

text \<open>
  Claim C1. A URL whose host is neither a subdomain of \<open>s3.amazonaws.com\<close> nor
  \<open>s3.amazonaws.com\<close> itself should fail with the unrecognized-format error. The code
  tests whether \<open>.s3.amazonaws.com\<close> occurs anywhere in the network location, so the
  host \<open>mybucket.s3.amazonaws.com.evil.example\<close>, which is a subdomain of
  \<open>evil.example\<close>, is accepted and yields the bucket \<open>mybucket\<close>.
\<close>

theorem lookalike_host_accepted:
  "urlparse lib ''https://mybucket.s3.amazonaws.com.evil.example/file.txt'' =
     Inr \<lparr>scheme = ''https'', netloc = ''mybucket.s3.amazonaws.com.evil.example'',
          path = ''/file.txt'', params = [], query = [], fragment = []\<rparr>
   \<and> parse_s3_url lib ''https://mybucket.s3.amazonaws.com.evil.example/file.txt'' =
       Inr (''mybucket'', ''file.txt'')"
  by code_simp

end
